theory Spec2Isabelle
  imports
    Complex_Main
    "HOL-Library.Multiset"
    "HOL-Library.Product_Lexorder"
    "HOL-Library.List_Lexorder"
    "HOL-Library.Char_ord"
begin

section \<open>Data model\<close>

text \<open>
  A cell of a frame as \<^verbatim>\<open>pandas.read_csv\<close> delivers it: a missing value (NaN, NaT or
  None), a number, a text, or a timestamp (nanoseconds since the epoch, the unit pandas
  stores). Floats are modelled by real numbers; NaN is a value of its own (\<open>NA\<close> in a
  cell, \<open>None\<close> in a numeric column).
\<close>

datatype cell = NA | Num real | Str string | TS int

text \<open>
  The frame as loaded from a file, before \<^verbatim>\<open>normalize_df\<close>: column names and rows of
  cells, one cell per column. The optional promo and calendar tables stay in this form.
\<close>

record raw_table =
  raw_columns :: "string list"
  raw_rows :: "cell list list"

text \<open>
  A row of a normalized frame. \<^verbatim>\<open>normalize_df\<close> gives \<open>units\<close> and \<open>price\<close> the dtype
  float64 and \<open>week_start\<close> and \<open>load_ts_parsed\<close> the dtype datetime64, so these fields are
  typed; \<open>delta_days\<close> is the column \<^verbatim>\<open>detect_partial_backfill\<close> adds to its copy. All
  other columns keep their cells in \<open>other\<close>. Which columns the frame really has is
  recorded in \<open>columns\<close>: a field of an absent column is never read. A timestamp is
  the instant in nanoseconds; \<open>week_start_tz\<close> and \<open>load_ts_tz\<close> say whether the parsed value
  carries a timezone (its text had a Z or an offset). A datetime column is timezone-aware
  when one of its values is, and timezone-naive otherwise.
\<close>

record row =
  week_start :: "int option"
  week_start_tz :: bool
  sku_id :: cell
  store_id :: cell
  units :: "real option"
  price :: "real option"
  load_ts :: cell
  load_ts_parsed :: "int option"
  load_ts_tz :: bool
  delta_days :: "int option"
  other :: "(string \<times> cell) list"

record table =
  columns :: "string list"
  rows :: "row list"

datatype error = KeyError string | TypeError

definition ts_cell :: "int option \<Rightarrow> cell" where
  "ts_cell x = (case x of None \<Rightarrow> NA | Some n \<Rightarrow> TS n)"

definition num_cell :: "real option \<Rightarrow> cell" where
  "num_cell x = (case x of None \<Rightarrow> NA | Some v \<Rightarrow> Num v)"

definition int_cell :: "int option \<Rightarrow> cell" where
  "int_cell x = (case x of None \<Rightarrow> NA | Some n \<Rightarrow> Num (of_int n))"

text \<open>The cell of row \<open>r\<close> in the column named \<open>c\<close> (\<^verbatim>\<open>df[c]\<close> read row by row).\<close>

definition field :: "row \<Rightarrow> string \<Rightarrow> cell" where
  "field r c =
     (if c = ''week_start'' then ts_cell (week_start r)
      else if c = ''sku_id'' then sku_id r
      else if c = ''store_id'' then store_id r
      else if c = ''units'' then num_cell (units r)
      else if c = ''price'' then num_cell (price r)
      else if c = ''load_ts'' then load_ts r
      else if c = ''load_ts_parsed'' then ts_cell (load_ts_parsed r)
      else if c = ''delta_days'' then int_cell (delta_days r)
      else (case map_of (other r) c of None \<Rightarrow> NA | Some v \<Rightarrow> v))"

section \<open>Schema checks\<close>

definition expected_schema_v1 :: "string list" where
  "expected_schema_v1 =
     [''week_start'', ''sku_id'', ''store_id'', ''units'', ''price'',
      ''inventory_on_hand'', ''currency'', ''load_ts'', ''source_file'']"

record schema_diag =
  missing_columns :: "string list"
  extra_columns :: "string list"
  schema_ok :: bool

definition check_schema :: "table \<Rightarrow> string list \<Rightarrow> schema_diag" where
  "check_schema df expected =
     (let cols = columns df;
          missing = filter (\<lambda>c. c \<notin> set cols) expected;
          extra = filter (\<lambda>c. c \<notin> set expected) cols
      in \<lparr>missing_columns = missing, extra_columns = extra, schema_ok = (length missing = 0)\<rparr>)"

section \<open>Duplicate primary keys\<close>

text \<open>
  \<^verbatim>\<open>DataFrame.duplicated(subset=pk, keep=False)\<close>: the mask that is true at every row
  whose key occurs at another row as well, before it (\<open>seen\<close>) or after it. Missing
  values compare equal to each other there, as \<open>NA = NA\<close> does.
\<close>

fun duplicated_keep_false :: "'a list \<Rightarrow> 'a list \<Rightarrow> bool list" where
  "duplicated_keep_false seen [] = []"
| "duplicated_keep_false seen (k # ks) =
     (k \<in> set seen \<or> k \<in> set ks) # duplicated_keep_false (k # seen) ks"

definition subset_key :: "string list \<Rightarrow> row \<Rightarrow> cell list" where
  "subset_key pk r = map (field r) pk"

definition duplicated :: "table \<Rightarrow> string list \<Rightarrow> bool list" where
  "duplicated df pk = duplicated_keep_false [] (map (subset_key pk) (rows df))"

text \<open>\<^verbatim>\<open>df[mask]\<close>: the rows at which the mask is true, in their order.\<close>

definition select_rows :: "row list \<Rightarrow> bool list \<Rightarrow> row list" where
  "select_rows rs msk = map fst (filter snd (zip rs msk))"

definition mask_sum :: "bool list \<Rightarrow> nat" where
  "mask_sum msk = length (filter (\<lambda>b. b) msk)"

definition default_pk :: "string list" where
  "default_pk = [''week_start'', ''sku_id'', ''store_id'']"

record duplicates_diag =
  dup_status :: string
  dup_pk :: "string list"
  duplicate_count :: "nat option"
  sample :: "row list"

definition check_duplicates :: "table \<Rightarrow> string list \<Rightarrow> duplicates_diag" where
  "check_duplicates df pk =
     (if list_ex (\<lambda>c. c \<notin> set (columns df)) pk
      then \<lparr>dup_status = ''pk_column_missing'', dup_pk = pk, duplicate_count = None, sample = []\<rparr>
      else
        let dup_mask = duplicated df pk;
            dup_count = mask_sum dup_mask;
            smp = take 10 (select_rows (rows df) dup_mask)
        in \<lparr>dup_status = ''ok'', dup_pk = pk, duplicate_count = Some dup_count, sample = smp\<rparr>)"

text \<open>The row's key occurs at more than one row of the frame.\<close>

definition key_repeats :: "string list \<Rightarrow> table \<Rightarrow> row \<Rightarrow> bool" where
  "key_repeats pk df r =
     (1 < count_list (map (subset_key pk) (rows df)) (subset_key pk r))"


section \<open>Numeric columns\<close>

text \<open>
  A float64 column is a list of \<open>real option\<close>, \<open>None\<close> standing for NaN. Comparisons
  with NaN are false, and arithmetic with NaN gives NaN.
\<close>

fun dropna :: "'a option list \<Rightarrow> 'a list" where
  "dropna [] = []"
| "dropna (None # xs) = dropna xs"
| "dropna (Some x # xs) = x # dropna xs"

text \<open>The median of the values left after dropping NaN; NaN when none is left.\<close>

definition median :: "real list \<Rightarrow> real option" where
  "median xs =
     (let s = sort xs; n = length s
      in if n = 0 then None
         else if odd n then Some (s ! (n div 2))
         else Some ((s ! (n div 2 - 1) + s ! (n div 2)) / 2))"

definition series_median :: "real option list \<Rightarrow> real option" where
  "series_median col = median (dropna col)"

definition flt_lt :: "real option \<Rightarrow> real \<Rightarrow> bool" where
  "flt_lt x c = (case x of None \<Rightarrow> False | Some v \<Rightarrow> v < c)"

definition flt_gt :: "real option \<Rightarrow> real \<Rightarrow> bool" where
  "flt_gt x c = (case x of None \<Rightarrow> False | Some v \<Rightarrow> c < v)"

definition flt_div :: "real option \<Rightarrow> real option \<Rightarrow> real option" where
  "flt_div x y = (case (x, y) of (Some a, Some b) \<Rightarrow> Some (a / b) | _ \<Rightarrow> None)"

text \<open>
  \<^verbatim>\<open>float(m or 0.0)\<close>: a median of zero is falsy and replaced by 0.0; NaN is truthy and
  stays NaN.
\<close>

definition float_or_zero :: "real option \<Rightarrow> real option" where
  "float_or_zero m = (case m of None \<Rightarrow> None | Some v \<Rightarrow> if v = 0 then Some 0 else Some v)"

text \<open>\<^verbatim>\<open>x % 1 == 0\<close> on a float: the value is a whole number.\<close>

definition integer_valued :: "real \<Rightarrow> bool" where
  "integer_valued x = (x = of_int \<lfloor>x\<rfloor>)"

text \<open>The mean of a boolean column: the share of its entries that are true.\<close>

definition bool_mean :: "bool list \<Rightarrow> real" where
  "bool_mean bs = real (length (filter (\<lambda>b. b) bs)) / real (length bs)"

section \<open>Unit/price mixup\<close>

datatype mixup_diag =
    Mixup_columns_missing
  | Mixup_ok "real option" "real option" "real option option" bool string

text \<open>The keys of the returned record that the Analyzer and the properties below read.\<close>

definition mixup_status :: "mixup_diag \<Rightarrow> string" where
  "mixup_status d = (case d of Mixup_columns_missing \<Rightarrow> ''columns_missing'' | Mixup_ok _ _ _ _ _ \<Rightarrow> ''ok'')"

definition suspected_unit_price_mixup :: "mixup_diag \<Rightarrow> bool option" where
  "suspected_unit_price_mixup d =
     (case d of Mixup_columns_missing \<Rightarrow> None | Mixup_ok _ _ _ s _ \<Rightarrow> Some s)"

definition mixup_hint :: "mixup_diag \<Rightarrow> string option" where
  "mixup_hint d = (case d of Mixup_columns_missing \<Rightarrow> None | Mixup_ok _ _ _ _ h \<Rightarrow> Some h)"

text \<open>The first hint holds an em dash, three bytes in UTF-8.\<close>

definition hint_small_price :: string where
  "hint_small_price =
     ''Median price < 1.5 while median units > 10 '' @ [CHR 0xE2, CHR 0x80, CHR 0x94] @
     '' possible price/units mixup.''"

definition hint_integer_price :: string where
  "hint_integer_price =
     ''Price values look integer-like and larger than typical units; possible swap.''"

definition detect_unit_price_mixup :: "table \<Rightarrow> mixup_diag" where
  "detect_unit_price_mixup df =
     (if ''price'' \<notin> set (columns df) \<or> ''units'' \<notin> set (columns df)
      then Mixup_columns_missing
      else
        let price_median = float_or_zero (series_median (map price (rows df)));
            units_median = float_or_zero (series_median (map units (rows df)));
            ratio = (if price_median = Some 0 then None
                     else if price_median \<noteq> Some 0 then Some (flt_div units_median price_median)
                     else None);
            first = (flt_lt price_median 1.5 \<and> flt_gt units_median 10);
            price_mode = dropna (map price (rows df));
            second = (\<not> first \<and> length price_mode > 0 \<and>
                      bool_mean (map integer_valued price_mode) > 0.9 \<and>
                      flt_gt (median price_mode) 5 \<and>
                      flt_lt (series_median (map units (rows df))) 2)
        in Mixup_ok price_median units_median ratio (first \<or> second)
             (if first then hint_small_price
              else if second then hint_integer_price else ''''))"

text \<open>
  The two heuristics as the specification words them, over the medians of the price and
  units columns and the share of whole numbers among the non-null prices.
  \<open>claimed_integer_price_heuristic\<close> takes "at least 90 percent" literally;
  \<open>integer_price_heuristic\<close> asks for more than 90 percent.
\<close>

definition price_median_of :: "table \<Rightarrow> real option" where
  "price_median_of df = series_median (map price (rows df))"

definition units_median_of :: "table \<Rightarrow> real option" where
  "units_median_of df = series_median (map units (rows df))"

definition integer_price_share :: "table \<Rightarrow> real" where
  "integer_price_share df = bool_mean (map integer_valued (dropna (map price (rows df))))"

definition small_price_heuristic :: "table \<Rightarrow> bool" where
  "small_price_heuristic df = (flt_lt (price_median_of df) 1.5 \<and> flt_gt (units_median_of df) 10)"

definition claimed_integer_price_heuristic :: "table \<Rightarrow> bool" where
  "claimed_integer_price_heuristic df =
     (\<not> small_price_heuristic df \<and> integer_price_share df \<ge> 0.9 \<and>
      flt_gt (price_median_of df) 5 \<and> flt_lt (units_median_of df) 2)"

definition integer_price_heuristic :: "table \<Rightarrow> bool" where
  "integer_price_heuristic df =
     (\<not> small_price_heuristic df \<and> integer_price_share df > 0.9 \<and>
      flt_gt (price_median_of df) 5 \<and> flt_lt (units_median_of df) 2)"

section \<open>Grouping and sorting\<close>

text \<open>
  Sort keys. \<^verbatim>\<open>sort_values\<close> and \<^verbatim>\<open>groupby\<close> order a column by its values with the
  missing values last; numbers, texts and timestamps are ranked in this order here (a
  column read from a file holds one kind). \<open>cell_key\<close> is injective.
\<close>

definition cell_key :: "cell \<Rightarrow> nat \<times> real \<times> string \<times> int" where
  "cell_key c =
     (case c of Num x \<Rightarrow> (0, x, [], 0) | Str s \<Rightarrow> (1, 0, s, 0)
      | TS n \<Rightarrow> (2, 0, [], n) | NA \<Rightarrow> (3, 0, [], 0))"

definition ts_key :: "int option \<Rightarrow> nat \<times> int" where
  "ts_key t = (case t of Some n \<Rightarrow> (0, n) | None \<Rightarrow> (1, 0))"

definition group_key :: "row \<Rightarrow> cell \<times> cell" where
  "group_key r = (sku_id r, store_id r)"

definition group_sort_key :: "cell \<times> cell \<Rightarrow> (nat \<times> real \<times> string \<times> int) \<times> (nat \<times> real \<times> string \<times> int)" where
  "group_sort_key k = (cell_key (fst k), cell_key (snd k))"

text \<open>
  \<^verbatim>\<open>df.groupby(["sku_id", "store_id"])\<close>, iterated: the groups in the order of their
  keys, rows with a missing key dropped, each group's rows in the order they have in the
  frame. A key column that the frame lacks raises KeyError.
\<close>

definition group_rows :: "row list \<Rightarrow> ((cell \<times> cell) \<times> row list) list" where
  "group_rows rs =
     (let keyed = filter (\<lambda>r. sku_id r \<noteq> NA \<and> store_id r \<noteq> NA) rs;
          keys = sort_key group_sort_key (remdups (map group_key keyed))
      in map (\<lambda>k. (k, filter (\<lambda>r. group_key r = k) keyed)) keys)"

definition groupby_sku_store :: "table \<Rightarrow> error + ((cell \<times> cell) \<times> row list) list" where
  "groupby_sku_store df =
     (if ''sku_id'' \<notin> set (columns df) then Inl (KeyError ''sku_id'')
      else if ''store_id'' \<notin> set (columns df) then Inl (KeyError ''store_id'')
      else Inr (group_rows (rows df)))"

text \<open>
  \<^verbatim>\<open>df.sort_values(["sku_id", "store_id", "week_start"])\<close>: a stable sort on the three
  columns, so rows that agree on all three keep the order they had.
\<close>

definition level_sort_key :: "row \<Rightarrow> (nat \<times> real \<times> string \<times> int) \<times> (nat \<times> real \<times> string \<times> int) \<times> (nat \<times> int)" where
  "level_sort_key r = (cell_key (sku_id r), cell_key (store_id r), ts_key (week_start r))"

definition sort_values :: "table \<Rightarrow> error + table" where
  "sort_values df =
     (if ''sku_id'' \<notin> set (columns df) then Inl (KeyError ''sku_id'')
      else if ''store_id'' \<notin> set (columns df) then Inl (KeyError ''store_id'')
      else if ''week_start'' \<notin> set (columns df) then Inl (KeyError ''week_start'')
      else Inr (df\<lparr>rows := sort_key level_sort_key (rows df)\<rparr>))"

section \<open>Date continuity\<close>

definition ns_per_day :: int where
  "ns_per_day = 86400000000000"

text \<open>\<^verbatim>\<open>.dt.days\<close> of a time difference: whole days, rounded down.\<close>

definition dt_days :: "int \<Rightarrow> int" where
  "dt_days d = d div ns_per_day"

text \<open>\<^verbatim>\<open>Series.diff()\<close> with its leading NaN dropped: the differences of neighbours.\<close>

fun diffs :: "int list \<Rightarrow> int list" where
  "diffs (a # b # xs) = (b - a) # diffs (b # xs)"
| "diffs xs = []"

text \<open>\<^verbatim>\<open>drop_duplicates\<close> and \<^verbatim>\<open>unique\<close>: each value once, at its first place.\<close>

definition unique :: "'a list \<Rightarrow> 'a list" where
  "unique xs = rev (remdups (rev xs))"

datatype gap_example = Gap_example cell cell "int list"

datatype continuity_diag =
    Cont_no_week_start_column
  | Cont_ok nat nat "gap_example list"

definition continuity_status :: "continuity_diag \<Rightarrow> string" where
  "continuity_status d =
     (case d of Cont_no_week_start_column \<Rightarrow> ''no_week_start_column'' | Cont_ok _ _ _ \<Rightarrow> ''ok'')"

text \<open>One turn of the loop over the groups; the state is the three counters.\<close>

definition continuity_step ::
  "int \<Rightarrow> int \<Rightarrow> nat \<times> nat \<times> gap_example list \<Rightarrow> (cell \<times> cell) \<times> row list
     \<Rightarrow> nat \<times> nat \<times> gap_example list" where
  "continuity_step freq_days allowed_gaps st g =
     (case st of (groups_total, groups_with_gaps, gap_examples) \<Rightarrow>
      case g of ((sku, store), sub) \<Rightarrow>
        let groups_total = groups_total + 1;
            weeks = unique (sort (dropna (map week_start sub)))
        in if length weeks < 2 then (groups_total, groups_with_gaps, gap_examples)
           else
             let diffs_days = map dt_days (diffs weeks);
                 bad_count = length (filter (\<lambda>d. d \<noteq> freq_days \<and> d \<noteq> 0) diffs_days)
             in if int bad_count > allowed_gaps
                then (groups_total, groups_with_gaps + 1,
                      gap_examples @ [Gap_example sku store (take 5 diffs_days)])
                else (groups_total, groups_with_gaps, gap_examples))"

definition check_date_continuity :: "table \<Rightarrow> int \<Rightarrow> int \<Rightarrow> error + continuity_diag" where
  "check_date_continuity df freq_days allowed_gaps =
     (if ''week_start'' \<notin> set (columns df) then Inr Cont_no_week_start_column
      else
        case groupby_sku_store df of
          Inl e \<Rightarrow> Inl e
        | Inr g \<Rightarrow>
            (case foldl (continuity_step freq_days allowed_gaps) (0, 0, []) g of
               (groups_total, groups_with_gaps, gap_examples) \<Rightarrow>
                 Inr (Cont_ok groups_total groups_with_gaps (take 10 gap_examples))))"

section \<open>Level shift\<close>

definition mean :: "real list \<Rightarrow> real option" where
  "mean xs = (if xs = [] then None else Some (sum_list xs / real (length xs)))"

text \<open>The sample variance (ddof = 1); NaN for fewer than two values.\<close>

definition variance :: "real list \<Rightarrow> real option" where
  "variance xs =
     (if length xs < 2 then None
      else Some (sum_list (map (\<lambda>x. (x - sum_list xs / real (length xs))\<^sup>2) xs)
                 / real (length xs - 1)))"

definition std :: "real list \<Rightarrow> real option" where
  "std xs = map_option sqrt (variance xs)"

text \<open>\<^verbatim>\<open>units.iloc[-window:]\<close>: the last \<open>window\<close> values; all of them when it is 0.\<close>

definition last_window :: "nat \<Rightarrow> 'a list \<Rightarrow> 'a list" where
  "last_window w xs = (if w = 0 then xs else drop (length xs - w) xs)"

text \<open>\<^verbatim>\<open>abs(last_mean - first_mean) / pooled_std\<close>, NaN when a mean is NaN.\<close>

definition z_score :: "real option \<Rightarrow> real option \<Rightarrow> real \<Rightarrow> real option" where
  "z_score first_mean last_mean pooled_std =
     (case (first_mean, last_mean) of
        (Some a, Some b) \<Rightarrow> Some (\<bar>b - a\<bar> / pooled_std)
      | _ \<Rightarrow> None)"

datatype shift_example = Shift_example cell cell "real option" "real option" "real option"

datatype level_shift_diag =
    Shift_columns_missing
  | Shift_ok nat nat "shift_example list"

definition level_shift_status :: "level_shift_diag \<Rightarrow> string" where
  "level_shift_status d =
     (case d of Shift_columns_missing \<Rightarrow> ''columns_missing'' | Shift_ok _ _ _ \<Rightarrow> ''ok'')"

text \<open>\<^verbatim>\<open>.get("groups_with_level_shift")\<close>: None when the record has no such key.\<close>

definition groups_with_level_shift :: "level_shift_diag \<Rightarrow> nat option" where
  "groups_with_level_shift d =
     (case d of Shift_columns_missing \<Rightarrow> None | Shift_ok _ n _ \<Rightarrow> Some n)"

text \<open>One turn of the loop over the groups.\<close>

definition level_shift_step ::
  "nat \<Rightarrow> real \<Rightarrow> nat \<times> nat \<times> shift_example list \<Rightarrow> (cell \<times> cell) \<times> row list
     \<Rightarrow> nat \<times> nat \<times> shift_example list" where
  "level_shift_step window z_threshold st g =
     (case st of (groups_tested, groups_with_shift, examples) \<Rightarrow>
      case g of ((sku, store), sub) \<Rightarrow>
        let us = dropna (map units sub)
        in if length us < window * 2 then (groups_tested, groups_with_shift, examples)
           else
             let groups_tested = groups_tested + 1;
                 first_mean = mean (take window us);
                 last_mean = mean (last_window window us)
             in case std us of
                  None \<Rightarrow> (groups_tested, groups_with_shift, examples)
                | Some pooled_std \<Rightarrow>
                    if pooled_std = 0 then (groups_tested, groups_with_shift, examples)
                    else
                      let z = z_score first_mean last_mean pooled_std
                      in if (case z of None \<Rightarrow> False | Some v \<Rightarrow> v \<ge> z_threshold)
                         then (groups_tested, groups_with_shift + 1,
                               examples @ [Shift_example sku store z first_mean last_mean])
                         else (groups_tested, groups_with_shift, examples))"

text \<open>The loop over the groups of the sorted frame.\<close>

definition level_shift_groups :: "table \<Rightarrow> nat \<Rightarrow> real \<Rightarrow> error + level_shift_diag" where
  "level_shift_groups sorted_df window z_threshold =
     (case groupby_sku_store sorted_df of
        Inl e \<Rightarrow> Inl e
      | Inr groups \<Rightarrow>
          (case foldl (level_shift_step window z_threshold) (0, 0, []) groups of
             (groups_tested, groups_with_shift, examples) \<Rightarrow>
               Inr (Shift_ok groups_tested groups_with_shift (take 10 examples))))"

definition detect_level_shift :: "table \<Rightarrow> nat \<Rightarrow> real \<Rightarrow> error + level_shift_diag" where
  "detect_level_shift df window z_threshold =
     (if ''units'' \<notin> set (columns df) \<or> ''week_start'' \<notin> set (columns df)
      then Inr Shift_columns_missing
      else
        case sort_values df of
          Inl e \<Rightarrow> Inl e
        | Inr sorted_df \<Rightarrow> level_shift_groups sorted_df window z_threshold)"

text \<open>
  The three sort columns of a row. Rows that agree on them are ties of the sort in
  \<^verbatim>\<open>detect_level_shift\<close>.
\<close>

definition tie_key :: "row \<Rightarrow> cell \<times> cell \<times> int option" where
  "tie_key r = (sku_id r, store_id r, week_start r)"


section \<open>Conversions of pandas taken as parameters\<close>

text \<open>
  The conversions of pandas are not spelled out: \<^verbatim>\<open>pd.to_numeric(errors="coerce")\<close>
  and \<^verbatim>\<open>pd.to_datetime(errors="coerce")\<close> on one cell (None where the cell does not
  parse), whether the timestamp that \<^verbatim>\<open>to_datetime\<close> makes of a cell carries a
  timezone (\<open>has_timezone\<close>: a text such as \<^verbatim>\<open>2023-01-03T00:00:00Z\<close> gives one, a
  text such as \<^verbatim>\<open>2023-01-02\<close> does not), and \<^verbatim>\<open>astype(str)\<close> on one cell. Every
  function that calls one of them takes them as the parameter \<open>P\<close>.
\<close>

record pandas =
  to_numeric :: "cell \<Rightarrow> real option"
  to_datetime :: "cell \<Rightarrow> int option"
  has_timezone :: "cell \<Rightarrow> bool"
  astype_str :: "cell \<Rightarrow> string"

section \<open>Partial backfill\<close>

text \<open>
  The hint is kept as the two values its text formats, the percentage (which the text
  rounds to two places) and the threshold; None is the empty hint.
\<close>

datatype partial_backfill_diag =
    Backfill_columns_missing
  | Backfill_no_load_ts_parsed
  | Backfill_ok nat nat real "(real \<times> int) option"

definition partial_backfill_status :: "partial_backfill_diag \<Rightarrow> string" where
  "partial_backfill_status d =
     (case d of Backfill_columns_missing \<Rightarrow> ''columns_missing''
      | Backfill_no_load_ts_parsed \<Rightarrow> ''no_load_ts_parsed''
      | Backfill_ok _ _ _ _ \<Rightarrow> ''ok'')"

definition pct_backfilled :: "partial_backfill_diag \<Rightarrow> real option" where
  "pct_backfilled d = (case d of Backfill_ok _ _ p _ \<Rightarrow> Some p | _ \<Rightarrow> None)"

text \<open>The days between the load time and the week of one row; NaN when one is NaT.\<close>

definition row_delta_days :: "row \<Rightarrow> int option" where
  "row_delta_days r =
     (case (load_ts_parsed r, week_start r) of
        (Some l, Some w) \<Rightarrow> Some (dt_days (l - w))
      | _ \<Rightarrow> None)"

definition tz_aware :: "(row \<Rightarrow> bool) \<Rightarrow> row list \<Rightarrow> bool" where
  "tz_aware flag rs = list_ex flag rs"

text \<open>
  \<^verbatim>\<open>(df["load_ts_parsed"] - df["week_start"]).dt.days\<close>: pandas takes the difference
  of two timezone-naive or of two timezone-aware columns and raises TypeError when one
  column is timezone-aware and the other timezone-naive.
\<close>

definition load_minus_week_days :: "row list \<Rightarrow> error + int option list" where
  "load_minus_week_days rs =
     (if tz_aware load_ts_tz rs \<noteq> tz_aware week_start_tz rs then Inl TypeError
      else Inr (map row_delta_days rs))"

text \<open>\<^verbatim>\<open>df["delta_days"] = ...\<close>: the frame with the column set, added if it is new.\<close>

definition assign_delta_days :: "table \<Rightarrow> int option list \<Rightarrow> table" where
  "assign_delta_days df ds =
     \<lparr>columns = (if ''delta_days'' \<in> set (columns df) then columns df
                 else columns df @ [''delta_days'']),
      rows = map (\<lambda>(r, d). r\<lparr>delta_days := d\<rparr>) (zip (rows df) ds)\<rparr>"

text \<open>The part of the check after the copy of the frame has its new column.\<close>

definition backfill_metrics :: "table \<Rightarrow> int \<Rightarrow> partial_backfill_diag" where
  "backfill_metrics df threshold_days =
     (let valid = dropna (map delta_days (rows df))
      in if length valid = 0 then Backfill_no_load_ts_parsed
         else
           let backfilled_count = length (filter (\<lambda>d. d > threshold_days) valid);
               pct = real backfilled_count / real (length valid);
               hint = (if pct > 0.05 then Some (pct * 100, threshold_days) else None)
           in Backfill_ok (length valid) backfilled_count pct hint)"

definition detect_partial_backfill :: "table \<Rightarrow> int \<Rightarrow> error + partial_backfill_diag" where
  "detect_partial_backfill df threshold_days =
     (if ''week_start'' \<notin> set (columns df) \<or> ''load_ts_parsed'' \<notin> set (columns df)
      then Inr Backfill_columns_missing
      else
        case load_minus_week_days (rows df) of
          Inl e \<Rightarrow> Inl e
        | Inr ds \<Rightarrow> Inr (backfill_metrics (assign_delta_days df ds) threshold_days))"

section \<open>Timezone shift\<close>

definition is_digit :: "char \<Rightarrow> bool" where
  "is_digit c = (c \<in> set ''0123456789'')"

text \<open>
  The pattern \<^verbatim>\<open>([+-]\d{2}:?\d{2}|Z)\<close> at the start of a text: a sign, two digits, an
  optional colon and two digits, or else the letter Z.
\<close>

fun match_offset :: "string \<Rightarrow> string option" where
  "match_offset (s # a # b # rest) =
     (if (s = CHR ''+'' \<or> s = CHR ''-'') \<and> is_digit a \<and> is_digit b
      then (case rest of
              c # d # e # _ \<Rightarrow>
                if c = CHR '':'' \<and> is_digit d \<and> is_digit e then Some [s, a, b, c, d, e]
                else if is_digit c \<and> is_digit d then Some [s, a, b, c, d]
                else None
            | [c, d] \<Rightarrow> if is_digit c \<and> is_digit d then Some [s, a, b, c, d] else None
            | _ \<Rightarrow> None)
      else None)"
| "match_offset _ = None"

definition match_tz_at :: "string \<Rightarrow> string option" where
  "match_tz_at s =
     (case match_offset s of
        Some m \<Rightarrow> Some m
      | None \<Rightarrow> (case s of c # _ \<Rightarrow> if c = CHR ''Z'' then Some ''Z'' else None | [] \<Rightarrow> None))"

text \<open>\<^verbatim>\<open>str.extract\<close>: the first match, scanning from the left; None without a match.\<close>

fun search_tz :: "string \<Rightarrow> string option" where
  "search_tz [] = None"
| "search_tz (c # cs) =
     (case match_tz_at (c # cs) of Some m \<Rightarrow> Some m | None \<Rightarrow> search_tz cs)"

datatype tz_hint = Multiple_tz_patterns "string list" | Duplicate_pk_found

datatype tz_diag =
    Tz_no_load_ts_column
  | Tz_ok "string list" nat bool "tz_hint list"

definition tz_status :: "tz_diag \<Rightarrow> string" where
  "tz_status d = (case d of Tz_no_load_ts_column \<Rightarrow> ''no_load_ts_column'' | Tz_ok _ _ _ _ \<Rightarrow> ''ok'')"

definition suspicious :: "tz_diag \<Rightarrow> bool option" where
  "suspicious d = (case d of Tz_no_load_ts_column \<Rightarrow> None | Tz_ok _ _ s _ \<Rightarrow> Some s)"

definition detect_timezone_shift :: "pandas \<Rightarrow> table \<Rightarrow> tz_diag" where
  "detect_timezone_shift P df =
     (if ''load_ts'' \<notin> set (columns df) then Tz_no_load_ts_column
      else
        let tz_variants = unique (dropna (map (\<lambda>r. search_tz (astype_str P (load_ts r))) (rows df)));
            dup_pk = (if list_all (\<lambda>c. c \<in> set (columns df)) default_pk
                      then mask_sum (duplicated df default_pk) else 0);
            susp = (length tz_variants > 1 \<or> dup_pk > 0);
            hint = (if length tz_variants > 1 then [Multiple_tz_patterns tz_variants] else []) @
                   (if dup_pk > 0 then [Duplicate_pk_found] else [])
        in Tz_ok tz_variants dup_pk susp hint)"

section \<open>Schema versioning\<close>

record schema_versioning_diag =
  sv_status :: string
  schema_changed :: bool
  sv_missing :: "string list"
  sv_extra :: "string list"
  sv_hint :: "(string list \<times> string list) option"

definition detect_schema_versioning :: "table \<Rightarrow> string list \<Rightarrow> schema_versioning_diag" where
  "detect_schema_versioning df expected =
     (let missing = filter (\<lambda>c. c \<notin> set (columns df)) expected;
          extra = filter (\<lambda>c. c \<notin> set expected) (columns df);
          changed = (length missing > 0 \<or> length extra > 0)
      in \<lparr>sv_status = ''ok'', schema_changed = changed, sv_missing = missing, sv_extra = extra,
          sv_hint = (if changed then Some (missing, extra) else None)\<rparr>)"

section \<open>Weekly series\<close>

text \<open>
  \<^verbatim>\<open>df.groupby("week_start")["units"].sum().sort_index()\<close>: one entry per week, in order
  of the weeks, rows without a week dropped; the sum skips NaN.
\<close>

definition weekly_units :: "row list \<Rightarrow> (int \<times> real) list" where
  "weekly_units rs =
     map (\<lambda>w. (w, sum_list (dropna (map units (filter (\<lambda>r. week_start r = Some w) rs)))))
       (sort (remdups (dropna (map week_start rs))))"

text \<open>The Pearson correlation of the pairs; NaN without pairs or with a constant side.\<close>

definition pearson :: "(real \<times> real) list \<Rightarrow> real option" where
  "pearson ps =
     (let n = real (length ps);
          mx = sum_list (map fst ps) / n;
          my = sum_list (map snd ps) / n;
          cov = sum_list (map (\<lambda>p. (fst p - mx) * (snd p - my)) ps);
          vx = sum_list (map (\<lambda>p. (fst p - mx)\<^sup>2) ps);
          vy = sum_list (map (\<lambda>p. (snd p - my)\<^sup>2) ps)
      in if ps = [] \<or> vx = 0 \<or> vy = 0 then None else Some (cov / sqrt (vx * vy)))"

text \<open>\<^verbatim>\<open>Series.autocorr(lag)\<close>: the series against itself shifted by \<open>lag\<close>.\<close>

definition autocorr :: "real list \<Rightarrow> nat \<Rightarrow> real option" where
  "autocorr xs lag = pearson (zip (drop lag xs) xs)"

section \<open>Seasonality break\<close>

datatype seasonality_diag =
    Season_missing_columns
  | Season_not_enough_history nat
  | Season_ok nat "real option option" "real option option"

definition seasonality_status :: "seasonality_diag \<Rightarrow> string" where
  "seasonality_status d =
     (case d of Season_missing_columns \<Rightarrow> ''missing_columns''
      | Season_not_enough_history _ \<Rightarrow> ''not_enough_history''
      | Season_ok _ _ _ \<Rightarrow> ''ok'')"

definition detect_seasonality_break :: "table \<Rightarrow> seasonality_diag" where
  "detect_seasonality_break df =
     (if ''week_start'' \<notin> set (columns df) \<or> ''units'' \<notin> set (columns df)
      then Season_missing_columns
      else
        let agg = map snd (weekly_units (rows df));
            n = length agg
        in if n < 24 then Season_not_enough_history n
           else Season_ok n (if n > 1 then Some (autocorr agg 1) else None)
                            (if n > 52 then Some (autocorr agg 52) else None))"

section \<open>Promo and calendar diagnostics\<close>

text \<open>The column of a frame as loaded; None when the frame has no such column.\<close>

definition raw_column :: "raw_table \<Rightarrow> string \<Rightarrow> cell list option" where
  "raw_column t c =
     (if c \<in> set (raw_columns t)
      then Some (map (\<lambda>r. let i = length (takeWhile (\<lambda>x. x \<noteq> c) (raw_columns t))
                         in if i < length r then r ! i else NA) (raw_rows t))
      else None)"

text \<open>
  \<^verbatim>\<open>agg.pct_change().abs().fillna(0) > 0.5\<close> for one week and the week before it: a
  week after a zero week has an infinite change unless it is zero itself (NaN, filled
  with 0).
\<close>

definition big_change :: "real \<Rightarrow> real \<Rightarrow> bool" where
  "big_change prev cur = (if prev = 0 then cur \<noteq> 0 else \<bar>cur / prev - 1\<bar> > 0.5)"

fun big_change_weeks :: "(int \<times> real) list \<Rightarrow> int list" where
  "big_change_weeks (a # b # rest) =
     (if big_change (snd a) (snd b) then [fst b] else []) @ big_change_weeks (b # rest)"
| "big_change_weeks _ = []"

text \<open>The calendar date of a timestamp, as the number of its day.\<close>

definition date_of :: "int \<Rightarrow> int" where
  "date_of t = t div ns_per_day"

text \<open>
  \<^verbatim>\<open>t["week_start"] = pd.to_datetime(t["week_start"], errors="coerce")\<close> on a frame as
  loaded: the column holds timestamps or NaT afterwards.
\<close>

definition parse_week_start :: "pandas \<Rightarrow> raw_table \<Rightarrow> raw_table" where
  "parse_week_start P t =
     (let i = length (takeWhile (\<lambda>x. x \<noteq> ''week_start'') (raw_columns t))
      in t\<lparr>raw_rows := map (\<lambda>r. if i < length r then r[i := ts_cell (to_datetime P (r ! i))] else r)
                           (raw_rows t)\<rparr>)"

definition timestamps_of :: "cell list \<Rightarrow> int option list" where
  "timestamps_of cs = map (\<lambda>c. case c of TS n \<Rightarrow> Some n | _ \<Rightarrow> None) cs"

text \<open>
  The weeks of big change whose date is the date of a week of the side table (its
  week_start column already parsed).
\<close>

definition overlaps :: "int list \<Rightarrow> raw_table \<Rightarrow> int list" where
  "overlaps big t =
     (case raw_column t ''week_start'' of
        None \<Rightarrow> []
      | Some col \<Rightarrow>
          let weeks = unique (dropna (timestamps_of col))
          in map date_of (filter (\<lambda>w. date_of w \<in> set (map date_of weeks)) big))"

datatype promo_hint = Promo_overlap "int list" | Calendar_overlap "int list" | No_matching_rows

datatype promo_diag =
    Promo_no_data
  | Promo_missing_columns
  | Promo_not_enough_history
  | Promo_no_big_changes
  | Promo_ok nat "int list" "promo_hint list"

definition promo_status :: "promo_diag \<Rightarrow> string" where
  "promo_status d =
     (case d of Promo_no_data \<Rightarrow> ''no_data'' | Promo_missing_columns \<Rightarrow> ''missing_columns''
      | Promo_not_enough_history \<Rightarrow> ''not_enough_history''
      | Promo_no_big_changes \<Rightarrow> ''no_big_changes'' | Promo_ok _ _ _ \<Rightarrow> ''ok'')"

definition side_table_hint :: "pandas \<Rightarrow> int list \<Rightarrow> raw_table option \<Rightarrow> int list" where
  "side_table_hint P big side =
     (case side of
        None \<Rightarrow> []
      | Some t \<Rightarrow>
          if ''week_start'' \<in> set (raw_columns t) then overlaps big (parse_week_start P t) else [])"

definition promo_calendar_diagnostics ::
  "pandas \<Rightarrow> table \<Rightarrow> raw_table option \<Rightarrow> raw_table option \<Rightarrow> promo_diag" where
  "promo_calendar_diagnostics P df promos calendar =
     (if promos = None \<and> calendar = None then Promo_no_data
      else if ''week_start'' \<notin> set (columns df) \<or> ''units'' \<notin> set (columns df)
      then Promo_missing_columns
      else
        let agg = weekly_units (rows df)
        in if length agg < 4 then Promo_not_enough_history
           else
             let big = big_change_weeks agg
             in if length big = 0 then Promo_no_big_changes
                else
                  let po = side_table_hint P big promos;
                      co = side_table_hint P big calendar;
                      hints = (if po \<noteq> [] then [Promo_overlap po] else []) @
                              (if co \<noteq> [] then [Calendar_overlap co] else []);
                      hints = (if hints = [] then [No_matching_rows] else hints)
                  in Promo_ok (length big) (map date_of big) hints)"

section \<open>Normalizer\<close>

text \<open>\<^verbatim>\<open>str.strip()\<close>: leading and trailing white space removed.\<close>

definition is_space :: "char \<Rightarrow> bool" where
  "is_space c =
     (c \<in> set [CHR '' '', CHR 0x09, CHR 0x0A, CHR 0x0B, CHR 0x0C, CHR 0x0D,
                CHR 0x1C, CHR 0x1D, CHR 0x1E, CHR 0x1F])"

definition strip :: "string \<Rightarrow> string" where
  "strip s = rev (dropWhile is_space (rev (dropWhile is_space s)))"

text \<open>The cell of a loaded row under the column name \<open>c\<close>; NaN where the row is short.\<close>

definition raw_cell :: "string list \<Rightarrow> cell list \<Rightarrow> string \<Rightarrow> cell" where
  "raw_cell cols r c =
     (let i = length (takeWhile (\<lambda>x. x \<noteq> c) cols)
      in if c \<in> set cols \<and> i < length r then r ! i else NA)"

definition typed_names :: "string list" where
  "typed_names =
     [''week_start'', ''sku_id'', ''store_id'', ''units'', ''price'', ''load_ts'',
      ''load_ts_parsed'', ''delta_days'']"

text \<open>
  \<^verbatim>\<open>normalize_df\<close> works on a copy of the loaded frame: it strips the column names,
  coerces units and price to numbers and week_start to timestamps, and adds
  load_ts_parsed when the frame has load_ts. The typed fields of absent columns are
  empty. The stripped column names are taken to be distinct, and a file is taken to
  carry no column that is itself named load_ts_parsed or delta_days.
\<close>

definition normalize_row :: "pandas \<Rightarrow> string list \<Rightarrow> cell list \<Rightarrow> row" where
  "normalize_row P cols r =
     \<lparr>week_start = (if ''week_start'' \<in> set cols
                     then to_datetime P (raw_cell cols r ''week_start'') else None),
      week_start_tz = (''week_start'' \<in> set cols \<and>
                       to_datetime P (raw_cell cols r ''week_start'') \<noteq> None \<and>
                       has_timezone P (raw_cell cols r ''week_start'')),
      sku_id = raw_cell cols r ''sku_id'',
      store_id = raw_cell cols r ''store_id'',
      units = (if ''units'' \<in> set cols then to_numeric P (raw_cell cols r ''units'') else None),
      price = (if ''price'' \<in> set cols then to_numeric P (raw_cell cols r ''price'') else None),
      load_ts = raw_cell cols r ''load_ts'',
      load_ts_parsed = (if ''load_ts'' \<in> set cols
                         then to_datetime P (raw_cell cols r ''load_ts'') else None),
      load_ts_tz = (''load_ts'' \<in> set cols \<and>
                    to_datetime P (raw_cell cols r ''load_ts'') \<noteq> None \<and>
                    has_timezone P (raw_cell cols r ''load_ts'')),
      delta_days = None,
      other = map (\<lambda>c. (c, raw_cell cols r c)) (filter (\<lambda>c. c \<notin> set typed_names) cols)\<rparr>"

definition normalize_df :: "pandas \<Rightarrow> raw_table \<Rightarrow> table" where
  "normalize_df P raw =
     (let cols = map strip (raw_columns raw)
      in \<lparr>columns = (if ''load_ts'' \<in> set cols \<and> ''load_ts_parsed'' \<notin> set cols
                      then cols @ [''load_ts_parsed''] else cols),
          rows = map (normalize_row P cols) (raw_rows raw)\<rparr>)"

section \<open>Analyzer and blocking policy\<close>

datatype verdict = PASS | FAIL

text \<open>
  The reason tags. \<open>Duplicates n\<close> is the text \<^verbatim>\<open>duplicates:n\<close>, \<open>Partial_backfill_pct p\<close>
  the text \<^verbatim>\<open>partial_backfill_pct:\<close> followed by \<open>p\<close> rounded to three places, and
  \<open>Level_shift_groups n\<close> the text \<^verbatim>\<open>level_shift_groups:n\<close> (a record without the
  key reads as 0 in the comparison and prints as None).
\<close>

datatype reason =
    Read_error
  | Missing_schema_columns
  | Duplicates nat
  | Partial_backfill_pct real
  | Unit_price_mixup_suspected
  | Level_shift_groups "nat option"
  | Timezone_anomaly_or_dup_pk

definition reason_tag :: "reason \<Rightarrow> string" where
  "reason_tag r =
     (case r of Read_error \<Rightarrow> ''read_error''
      | Missing_schema_columns \<Rightarrow> ''missing_schema_columns''
      | Duplicates _ \<Rightarrow> ''duplicates''
      | Partial_backfill_pct _ \<Rightarrow> ''partial_backfill_pct''
      | Unit_price_mixup_suspected \<Rightarrow> ''unit_price_mixup_suspected''
      | Level_shift_groups _ \<Rightarrow> ''level_shift_groups''
      | Timezone_anomaly_or_dup_pk \<Rightarrow> ''timezone_anomaly_or_dup_pk'')"

text \<open>The thresholds of \<^verbatim>\<open>DEFAULTS\<close>.\<close>

definition partial_backfill_pct_threshold :: real where
  "partial_backfill_pct_threshold = 0.20"

definition duplicate_block_threshold :: nat where
  "duplicate_block_threshold = 1"

definition level_shift_groups_threshold :: nat where
  "level_shift_groups_threshold = 1"

text \<open>
  The blocking logic of \<^verbatim>\<open>analyze_file\<close>: the reasons, appended in the order of the
  source, from the six records it reads.
\<close>

definition blocking_logic ::
  "schema_diag \<Rightarrow> duplicates_diag \<Rightarrow> partial_backfill_diag \<Rightarrow> mixup_diag \<Rightarrow>
     level_shift_diag \<Rightarrow> tz_diag \<Rightarrow> reason list" where
  "blocking_logic sch dup pb mx ls tz =
     (if missing_columns sch \<noteq> [] then [Missing_schema_columns] else []) @
     (case duplicate_count dup of
        Some n \<Rightarrow> if n \<ge> duplicate_block_threshold then [Duplicates n] else []
      | None \<Rightarrow> []) @
     (case pct_backfilled pb of
        Some p \<Rightarrow> if p > partial_backfill_pct_threshold then [Partial_backfill_pct p] else []
      | None \<Rightarrow> []) @
     (if suspected_unit_price_mixup mx = Some True then [Unit_price_mixup_suspected] else []) @
     (case groups_with_level_shift ls of
        Some n \<Rightarrow> if n \<ge> level_shift_groups_threshold then [Level_shift_groups (Some n)] else []
      | None \<Rightarrow> if 0 \<ge> level_shift_groups_threshold then [Level_shift_groups None] else []) @
     (if suspicious tz = Some True then [Timezone_anomaly_or_dup_pk] else [])"

definition blocking_of :: "reason list \<Rightarrow> verdict" where
  "blocking_of reasons = (if length reasons > 0 then FAIL else PASS)"

text \<open>
  The file report. A report of a file that could not be read holds the error and no
  diagnostic record.
\<close>

record report =
  file_name :: string
  analyzed_at :: string
  read_error :: "string option"
  schema :: "schema_diag option"
  schema_versioning :: "schema_versioning_diag option"
  duplicates :: "duplicates_diag option"
  continuity :: "continuity_diag option"
  level_shift :: "level_shift_diag option"
  unit_price_mixup :: "mixup_diag option"
  partial_backfill :: "partial_backfill_diag option"
  tz_shift :: "tz_diag option"
  seasonality :: "seasonality_diag option"
  promo_calendar :: "promo_diag option"
  blocking_reasons :: "reason list"
  blocking :: verdict

text \<open>\<^verbatim>\<open>pd.read_csv(path)\<close>: the frame, or the message of the exception it raised.\<close>

datatype load_result = Load_failed string | Loaded raw_table

text \<open>
  \<^verbatim>\<open>analyze_file\<close>. \<open>name\<close> is the file's name and \<open>now\<close> the clock reading; the checks
  are called with their default parameters. An exception of a check (the KeyError of
  \<^verbatim>\<open>check_date_continuity\<close> and \<^verbatim>\<open>detect_level_shift\<close>, the TypeError of
  \<^verbatim>\<open>detect_partial_backfill\<close>) is not caught and leaves the function. The report of a file that was read is also written to
  \<^verbatim>\<open><stem>_dq_report.json\<close>; the early return on a read error writes nothing.
\<close>

definition analyze_file ::
  "pandas \<Rightarrow> string \<Rightarrow> string \<Rightarrow> load_result \<Rightarrow> raw_table option \<Rightarrow> raw_table option
     \<Rightarrow> error + report" where
  "analyze_file P name now loaded promos_df calendar_df =
     (case loaded of
        Load_failed e \<Rightarrow>
          Inr \<lparr>file_name = name, analyzed_at = now, read_error = Some (''read_error: '' @ e),
               schema = None, schema_versioning = None, duplicates = None, continuity = None,
               level_shift = None, unit_price_mixup = None, partial_backfill = None,
               tz_shift = None, seasonality = None, promo_calendar = None,
               blocking_reasons = [Read_error], blocking = FAIL\<rparr>
      | Loaded raw \<Rightarrow>
          let df = normalize_df P raw;
              sch = check_schema df expected_schema_v1;
              sv = detect_schema_versioning df expected_schema_v1;
              dup = check_duplicates df default_pk
          in case check_date_continuity df 7 1 of
               Inl e \<Rightarrow> Inl e
             | Inr cont \<Rightarrow>
                 (case detect_level_shift df 8 3 of
                    Inl e \<Rightarrow> Inl e
                  | Inr ls \<Rightarrow>
                      let mx = detect_unit_price_mixup df
                      in case detect_partial_backfill df 30 of
                           Inl e \<Rightarrow> Inl e
                         | Inr pb \<Rightarrow>
                             let tz = detect_timezone_shift P df;
                                 sea = detect_seasonality_break df;
                                 pc = promo_calendar_diagnostics P df promos_df calendar_df;
                                 reasons = blocking_logic sch dup pb mx ls tz
                             in Inr \<lparr>file_name = name, analyzed_at = now, read_error = None,
                                     schema = Some sch, schema_versioning = Some sv,
                                     duplicates = Some dup, continuity = Some cont,
                                     level_shift = Some ls, unit_price_mixup = Some mx,
                                     partial_backfill = Some pb, tz_shift = Some tz,
                                     seasonality = Some sea, promo_calendar = Some pc,
                                     blocking_reasons = reasons,
                                     blocking = blocking_of reasons\<rparr>))"

section \<open>Runner\<close>

text \<open>The file behind an optional command-line path.\<close>

datatype optional_file = Not_given | Not_found | Unreadable | Readable raw_table

definition load_optional_csv :: "optional_file \<Rightarrow> raw_table option" where
  "load_optional_csv f = (case f of Readable t \<Rightarrow> Some t | _ \<Rightarrow> None)"

record summary_row =
  sr_file :: string
  sr_blocking :: verdict
  sr_blocking_reasons :: "reason list"
  sr_duplicate_count :: "nat option"
  sr_pct_backfilled :: "real option"
  sr_suspected_unit_price_mixup :: "bool option"
  sr_level_shift_groups :: "nat option"

definition summary_of :: "report \<Rightarrow> summary_row" where
  "summary_of r =
     \<lparr>sr_file = file_name r, sr_blocking = blocking r, sr_blocking_reasons = blocking_reasons r,
      sr_duplicate_count = (case duplicates r of None \<Rightarrow> None | Some d \<Rightarrow> duplicate_count d),
      sr_pct_backfilled = (case partial_backfill r of None \<Rightarrow> None | Some d \<Rightarrow> pct_backfilled d),
      sr_suspected_unit_price_mixup =
        (case unit_price_mixup r of None \<Rightarrow> None | Some d \<Rightarrow> suspected_unit_price_mixup d),
      sr_level_shift_groups =
        (case level_shift r of None \<Rightarrow> None | Some d \<Rightarrow> groups_with_level_shift d)\<rparr>"

text \<open>
  What the run sees of its surroundings: whether the data directory exists, the files
  that match the pattern (name and what reading each gives), the two optional files and
  the clock.
\<close>

record run_env =
  data_dir_exists :: bool
  matching_files :: "(string \<times> load_result) list"
  promos_file :: optional_file
  calendar_file :: optional_file
  clock :: string

text \<open>
  How the process ends: \<^verbatim>\<open>sys.exit(code)\<close>, with the summary rows written to
  \<^verbatim>\<open>summary_report.csv\<close> if it was written, or an exception that nothing catches.
\<close>

datatype outcome = Exit nat "summary_row list option" | Uncaught error

text \<open>
  The exit status the caller of the process sees: the interpreter ends with status 1
  after an exception that nothing catches.
\<close>

definition exit_status :: "outcome \<Rightarrow> nat" where
  "exit_status out = (case out of Exit code _ \<Rightarrow> code | Uncaught _ \<Rightarrow> 1)"

definition summary_written :: "outcome \<Rightarrow> bool" where
  "summary_written out = (case out of Exit _ (Some _) \<Rightarrow> True | _ \<Rightarrow> False)"

text \<open>The loop over the files; it stops at the first exception.\<close>

fun analyze_all ::
  "pandas \<Rightarrow> string \<Rightarrow> raw_table option \<Rightarrow> raw_table option \<Rightarrow> (string \<times> load_result) list
     \<Rightarrow> error + report list" where
  "analyze_all P now promos_df calendar_df [] = Inr []"
| "analyze_all P now promos_df calendar_df (f # fs) =
     (case analyze_file P (fst f) now (snd f) promos_df calendar_df of
        Inl e \<Rightarrow> Inl e
      | Inr r \<Rightarrow>
          (case analyze_all P now promos_df calendar_df fs of
             Inl e \<Rightarrow> Inl e
           | Inr rs \<Rightarrow> Inr (r # rs)))"

definition main :: "pandas \<Rightarrow> run_env \<Rightarrow> outcome" where
  "main P env =
     (if \<not> data_dir_exists env then Exit 2 None
      else
        let promos_df = load_optional_csv (promos_file env);
            calendar_df = load_optional_csv (calendar_file env);
            csv_files = sort_key fst (matching_files env)
        in if csv_files = [] then Exit 3 None
           else
             case analyze_all P (clock env) promos_df calendar_df csv_files of
               Inl e \<Rightarrow> Uncaught e
             | Inr reports \<Rightarrow>
                 let summary_rows = map summary_of reports;
                     any_fail = list_ex (\<lambda>r. blocking r = FAIL) reports
                 in if any_fail then Exit 1 (Some summary_rows)
                    else Exit 0 (Some summary_rows))"

text \<open>The place of a reason in the order the blocking policy fixes.\<close>

definition reason_rank :: "reason \<Rightarrow> nat" where
  "reason_rank r =
     (case r of Read_error \<Rightarrow> 0
      | Missing_schema_columns \<Rightarrow> 1
      | Duplicates _ \<Rightarrow> 2
      | Partial_backfill_pct _ \<Rightarrow> 3
      | Unit_price_mixup_suspected \<Rightarrow> 4
      | Level_shift_groups _ \<Rightarrow> 5
      | Timezone_anomaly_or_dup_pk \<Rightarrow> 6)"

section \<open>Frames in a store\<close>

text \<open>
  Python passes a frame by reference, and an assignment to a column changes the frame
  for everyone who holds it. The store holds the normalized frames and the side tables;
  a reference is a position in it. \<^verbatim>\<open>df.copy()\<close>, and every pandas call that returns a
  new frame, puts a frame at a new position; \<^verbatim>\<open>df[c] = ...\<close> overwrites the frame at
  the position \<open>df\<close> refers to.
\<close>

record store =
  frames :: "table list"
  side_tables :: "raw_table list"

definition new_frame :: "store \<Rightarrow> table \<Rightarrow> nat \<times> store" where
  "new_frame s t = (length (frames s), s\<lparr>frames := frames s @ [t]\<rparr>)"

definition df_copy :: "store \<Rightarrow> nat \<Rightarrow> nat \<times> store" where
  "df_copy s r = new_frame s (frames s ! r)"

definition set_frame :: "store \<Rightarrow> nat \<Rightarrow> table \<Rightarrow> store" where
  "set_frame s r t = s\<lparr>frames := (frames s)[r := t]\<rparr>"

definition side_copy :: "store \<Rightarrow> nat \<Rightarrow> nat \<times> store" where
  "side_copy s r = (length (side_tables s), s\<lparr>side_tables := side_tables s @ [side_tables s ! r]\<rparr>)"

definition set_side :: "store \<Rightarrow> nat \<Rightarrow> raw_table \<Rightarrow> store" where
  "set_side s r t = s\<lparr>side_tables := (side_tables s)[r := t]\<rparr>"

text \<open>
  The three checks that copy a frame, with the store passed through. Each returns its
  record and the store it leaves behind.
\<close>

definition detect_partial_backfill_in ::
  "store \<Rightarrow> nat \<Rightarrow> int \<Rightarrow> (error + partial_backfill_diag) \<times> store" where
  "detect_partial_backfill_in s df threshold_days =
     (if ''week_start'' \<notin> set (columns (frames s ! df)) \<or>
         ''load_ts_parsed'' \<notin> set (columns (frames s ! df))
      then (Inr Backfill_columns_missing, s)
      else
        case df_copy s df of
          (df', s1) \<Rightarrow>
            (case load_minus_week_days (rows (frames s1 ! df')) of
               Inl e \<Rightarrow> (Inl e, s1)
             | Inr ds \<Rightarrow>
                 let s2 = set_frame s1 df' (assign_delta_days (frames s1 ! df') ds)
                 in (Inr (backfill_metrics (frames s2 ! df') threshold_days), s2)))"

definition detect_level_shift_in ::
  "store \<Rightarrow> nat \<Rightarrow> nat \<Rightarrow> real \<Rightarrow> (error + level_shift_diag) \<times> store" where
  "detect_level_shift_in s df window z_threshold =
     (if ''units'' \<notin> set (columns (frames s ! df)) \<or>
         ''week_start'' \<notin> set (columns (frames s ! df))
      then (Inr Shift_columns_missing, s)
      else
        case df_copy s df of
          (df1, s1) \<Rightarrow>
            (case sort_values (frames s1 ! df1) of
               Inl e \<Rightarrow> (Inl e, s1)
             | Inr sorted_df \<Rightarrow>
                 (case new_frame s1 sorted_df of
                    (df2, s2) \<Rightarrow> (level_shift_groups (frames s2 ! df2) window z_threshold, s2))))"

definition side_table_hint_in ::
  "pandas \<Rightarrow> int list \<Rightarrow> store \<Rightarrow> nat option \<Rightarrow> int list \<times> store" where
  "side_table_hint_in P big s side =
     (case side of
        None \<Rightarrow> ([], s)
      | Some r \<Rightarrow>
          if ''week_start'' \<in> set (raw_columns (side_tables s ! r))
          then (case side_copy s r of
                  (r', s1) \<Rightarrow>
                    let s2 = set_side s1 r' (parse_week_start P (side_tables s1 ! r'))
                    in (overlaps big (side_tables s2 ! r'), s2))
          else ([], s))"

definition promo_calendar_diagnostics_in ::
  "pandas \<Rightarrow> store \<Rightarrow> nat \<Rightarrow> nat option \<Rightarrow> nat option \<Rightarrow> promo_diag \<times> store" where
  "promo_calendar_diagnostics_in P s df promos calendar =
     (if promos = None \<and> calendar = None then (Promo_no_data, s)
      else if ''week_start'' \<notin> set (columns (frames s ! df)) \<or>
              ''units'' \<notin> set (columns (frames s ! df))
      then (Promo_missing_columns, s)
      else
        let agg = weekly_units (rows (frames s ! df))
        in if length agg < 4 then (Promo_not_enough_history, s)
           else
             let big = big_change_weeks agg
             in if length big = 0 then (Promo_no_big_changes, s)
                else
                  case side_table_hint_in P big s promos of
                    (po, s1) \<Rightarrow>
                      (case side_table_hint_in P big s1 calendar of
                         (co, s2) \<Rightarrow>
                           let hints = (if po \<noteq> [] then [Promo_overlap po] else []) @
                                       (if co \<noteq> [] then [Calendar_overlap co] else []);
                               hints = (if hints = [] then [No_matching_rows] else hints)
                           in (Promo_ok (length big) (map date_of big) hints, s2)))"

text \<open>
  The checks as the Analyzer calls them, one tag per check, and the record each returns.
  The seven checks that assign to no frame and copy none read the frame at \<open>df\<close> and
  leave the store as it is.
\<close>

datatype check_name =
    Run_schema | Run_schema_versioning | Run_duplicates | Run_continuity | Run_level_shift
  | Run_unit_price_mixup | Run_partial_backfill | Run_tz_shift | Run_seasonality
  | Run_promo_calendar

datatype diagnostic =
    Schema_record schema_diag
  | Schema_versioning_record schema_versioning_diag
  | Duplicates_record duplicates_diag
  | Continuity_record continuity_diag
  | Level_shift_record level_shift_diag
  | Mixup_record mixup_diag
  | Backfill_record partial_backfill_diag
  | Tz_record tz_diag
  | Seasonality_record seasonality_diag
  | Promo_record promo_diag

definition run_check ::
  "pandas \<Rightarrow> check_name \<Rightarrow> store \<Rightarrow> nat \<Rightarrow> nat option \<Rightarrow> nat option
     \<Rightarrow> (error + diagnostic) \<times> store" where
  "run_check P c s df promos calendar =
     (case c of
        Run_schema \<Rightarrow> (Inr (Schema_record (check_schema (frames s ! df) expected_schema_v1)), s)
      | Run_schema_versioning \<Rightarrow>
          (Inr (Schema_versioning_record
                  (detect_schema_versioning (frames s ! df) expected_schema_v1)), s)
      | Run_duplicates \<Rightarrow>
          (Inr (Duplicates_record (check_duplicates (frames s ! df) default_pk)), s)
      | Run_continuity \<Rightarrow>
          (map_sum (\<lambda>e. e) Continuity_record (check_date_continuity (frames s ! df) 7 1), s)
      | Run_level_shift \<Rightarrow>
          (case detect_level_shift_in s df 8 3 of
             (r, s') \<Rightarrow> (map_sum (\<lambda>e. e) Level_shift_record r, s'))
      | Run_unit_price_mixup \<Rightarrow>
          (Inr (Mixup_record (detect_unit_price_mixup (frames s ! df))), s)
      | Run_partial_backfill \<Rightarrow>
          (case detect_partial_backfill_in s df 30 of
             (r, s') \<Rightarrow> (map_sum (\<lambda>e. e) Backfill_record r, s'))
      | Run_tz_shift \<Rightarrow> (Inr (Tz_record (detect_timezone_shift P (frames s ! df))), s)
      | Run_seasonality \<Rightarrow>
          (Inr (Seasonality_record (detect_seasonality_break (frames s ! df))), s)
      | Run_promo_calendar \<Rightarrow>
          (case promo_calendar_diagnostics_in P s df promos calendar of
             (r, s') \<Rightarrow> (Inr (Promo_record r), s')))"

text \<open>The record of a check as a function of the frame and the side tables alone.\<close>

definition check_result ::
  "pandas \<Rightarrow> check_name \<Rightarrow> table \<Rightarrow> raw_table option \<Rightarrow> raw_table option
     \<Rightarrow> error + diagnostic" where
  "check_result P c t promos_df calendar_df =
     (case c of
        Run_schema \<Rightarrow> Inr (Schema_record (check_schema t expected_schema_v1))
      | Run_schema_versioning \<Rightarrow>
          Inr (Schema_versioning_record (detect_schema_versioning t expected_schema_v1))
      | Run_duplicates \<Rightarrow> Inr (Duplicates_record (check_duplicates t default_pk))
      | Run_continuity \<Rightarrow> map_sum (\<lambda>e. e) Continuity_record (check_date_continuity t 7 1)
      | Run_level_shift \<Rightarrow> map_sum (\<lambda>e. e) Level_shift_record (detect_level_shift t 8 3)
      | Run_unit_price_mixup \<Rightarrow> Inr (Mixup_record (detect_unit_price_mixup t))
      | Run_partial_backfill \<Rightarrow>
          map_sum (\<lambda>e. e) Backfill_record (detect_partial_backfill t 30)
      | Run_tz_shift \<Rightarrow> Inr (Tz_record (detect_timezone_shift P t))
      | Run_seasonality \<Rightarrow> Inr (Seasonality_record (detect_seasonality_break t))
      | Run_promo_calendar \<Rightarrow>
          Inr (Promo_record (promo_calendar_diagnostics P t promos_df calendar_df)))"

text \<open>The side table a reference stands for.\<close>

definition side_at :: "store \<Rightarrow> nat option \<Rightarrow> raw_table option" where
  "side_at s r = map_option (\<lambda>i. side_tables s ! i) r"

text \<open>A reference, where one is given, points into the store.\<close>

definition valid_side :: "store \<Rightarrow> nat option \<Rightarrow> bool" where
  "valid_side s r = (case r of None \<Rightarrow> True | Some i \<Rightarrow> i < length (side_tables s))"

text \<open>
  The store \<open>s'\<close> is the store \<open>s\<close> with frames and side tables added at new positions
  and nothing else changed.
\<close>

definition grown :: "store \<Rightarrow> store \<Rightarrow> bool" where
  "grown s s' = (\<exists>fx sx. s' = s\<lparr>frames := frames s @ fx, side_tables := side_tables s @ sx\<rparr>)"


section \<open>Example tables\<close>

text \<open>
  Small concrete frames on which the theorems below are instantiated. \<open>sales_row\<close>
  builds the row of a normalized frame from its week, key, units and price.
\<close>

definition sales_row :: "int \<Rightarrow> string \<Rightarrow> string \<Rightarrow> real \<Rightarrow> real \<Rightarrow> row" where
  "sales_row w s c u p =
     \<lparr>week_start = Some w, week_start_tz = False, sku_id = Str s, store_id = Str c,
      units = Some u, price = Some p, load_ts = NA, load_ts_parsed = None, load_ts_tz = False,
      delta_days = None, other = []\<rparr>"

definition sales_columns :: "string list" where
  "sales_columns = [''week_start'', ''sku_id'', ''store_id'', ''units'', ''price'']"

text \<open>Two rows with the same key (week 0, S1, C1).\<close>

definition repeated_key_table :: table where
  "repeated_key_table =
     \<lparr>columns = sales_columns,
      rows = [sales_row 0 ''S1'' ''C1'' 10 5, sales_row 0 ''S1'' ''C1'' 12 5]\<rparr>"

text \<open>Two rows with different keys.\<close>

definition distinct_key_table :: table where
  "distinct_key_table =
     \<lparr>columns = sales_columns,
      rows = [sales_row 0 ''S1'' ''C1'' 10 5, sales_row 0 ''S2'' ''C1'' 12 5]\<rparr>"

text \<open>A repeated key next to a key that occurs once.\<close>

definition mixed_key_table :: table where
  "mixed_key_table =
     \<lparr>columns = sales_columns,
      rows = [sales_row 0 ''S1'' ''C1'' 10 5, sales_row 0 ''S2'' ''C1'' 12 5,
              sales_row 0 ''S1'' ''C1'' 11 5]\<rparr>"

text \<open>Every price is 5 and every unit count is 1 (scenario 4 of the specification).\<close>

definition price_five_table :: table where
  "price_five_table =
     \<lparr>columns = sales_columns,
      rows = [sales_row 0 ''S1'' ''C1'' 1 5, sales_row 7 ''S1'' ''C1'' 1 5,
              sales_row 14 ''S1'' ''C1'' 1 5]\<rparr>"

text \<open>Every price is 6 and every unit count is 1.\<close>

definition price_six_table :: table where
  "price_six_table =
     \<lparr>columns = sales_columns,
      rows = [sales_row 0 ''S1'' ''C1'' 1 6, sales_row 7 ''S1'' ''C1'' 1 6,
              sales_row 14 ''S1'' ''C1'' 1 6]\<rparr>"

text \<open>Ten prices, nine of them whole numbers (exactly 90 percent), median 6; units all 1.\<close>

definition ninety_percent_table :: table where
  "ninety_percent_table =
     \<lparr>columns = sales_columns,
      rows = map (\<lambda>w. sales_row w ''S1'' ''C1'' 1 6) [0, 7, 14, 21, 28, 35, 42, 49, 56] @
             [sales_row 63 ''S1'' ''C1'' 1 (13 / 2)]\<rparr>"

text \<open>Small prices and large unit counts: the first heuristic.\<close>

definition swapped_table :: table where
  "swapped_table =
     \<lparr>columns = sales_columns,
      rows = [sales_row 0 ''S1'' ''C1'' 40 1, sales_row 7 ''S1'' ''C1'' 50 1,
              sales_row 14 ''S1'' ''C1'' 60 (5 / 4)]\<rparr>"

text \<open>
  Forty-eight rows of one group that all carry the same week: the units step from 0
  over 50 to 100 in \<open>step_table\<close>; \<open>shuffled_step_table\<close> holds the same rows in
  another order.
\<close>

definition tied_rows :: "real list \<Rightarrow> row list" where
  "tied_rows us = map (\<lambda>u. sales_row 0 ''S1'' ''C1'' u 5) us"

definition step_units :: "real list" where
  "step_units =
     [0, 0, 0, 0, 0, 0, 0, 0] @ replicate 32 50 @ [100, 100, 100, 100, 100, 100, 100, 100]"

definition step_table :: table where
  "step_table = \<lparr>columns = sales_columns, rows = tied_rows step_units\<rparr>"

definition shuffled_units :: "real list" where
  "shuffled_units =
     [0, 100, 0, 100, 0, 100, 0, 100] @ replicate 32 50 @ [0, 100, 0, 100, 0, 100, 0, 100]"

definition shuffled_step_table :: table where
  "shuffled_step_table = \<lparr>columns = sales_columns, rows = tied_rows shuffled_units\<rparr>"

text \<open>Three weeks of one group, in order of the weeks and out of order.\<close>

definition ordered_table :: table where
  "ordered_table =
     \<lparr>columns = sales_columns,
      rows = [sales_row 0 ''S1'' ''C1'' 0 5, sales_row 7 ''S1'' ''C1'' 50 5,
              sales_row 14 ''S1'' ''C1'' 100 5]\<rparr>"

definition reordered_table :: table where
  "reordered_table =
     \<lparr>columns = sales_columns,
      rows = [sales_row 14 ''S1'' ''C1'' 100 5, sales_row 0 ''S1'' ''C1'' 0 5,
              sales_row 7 ''S1'' ''C1'' 50 5]\<rparr>"


text \<open>A frame with week_start and units but neither sku_id nor store_id.\<close>

definition no_key_columns_table :: table where
  "no_key_columns_table =
     \<lparr>columns = [''week_start'', ''units''],
      rows = [\<lparr>week_start = Some 0, week_start_tz = False, sku_id = NA, store_id = NA,
               units = Some 10, price = None, load_ts = NA, load_ts_parsed = None,
               load_ts_tz = False, delta_days = None, other = []\<rparr>]\<rparr>"

text \<open>Six diagnostic records that each give the blocking policy a reason.\<close>

definition failing_schema :: schema_diag where
  "failing_schema = \<lparr>missing_columns = [''currency''], extra_columns = [], schema_ok = False\<rparr>"

definition failing_duplicates :: duplicates_diag where
  "failing_duplicates =
     \<lparr>dup_status = ''ok'', dup_pk = default_pk, duplicate_count = Some 2, sample = []\<rparr>"

definition failing_backfill :: partial_backfill_diag where
  "failing_backfill = Backfill_ok 4 2 (1 / 2) (Some (50, 30))"

definition failing_mixup :: mixup_diag where
  "failing_mixup = Mixup_ok (Some 1) (Some 50) (Some (Some 50)) True hint_small_price"

definition failing_level_shift :: level_shift_diag where
  "failing_level_shift = Shift_ok 1 1 []"

definition failing_tz :: tz_diag where
  "failing_tz = Tz_ok [''Z'', ''+05:30''] 0 True [Multiple_tz_patterns [''Z'', ''+05:30'']]"

text \<open>Conversions that know no text: every text cell is coerced to a missing value.\<close>

definition plain_pandas :: pandas where
  "plain_pandas =
     \<lparr>to_numeric = (\<lambda>c. case c of Num x \<Rightarrow> Some x | _ \<Rightarrow> None),
      to_datetime = (\<lambda>c. case c of TS n \<Rightarrow> Some n | _ \<Rightarrow> None),
      has_timezone = (\<lambda>c. False),
      astype_str = (\<lambda>c. case c of Str s \<Rightarrow> s | _ \<Rightarrow> ''nan'')\<rparr>"

text \<open>Runs: no data directory; no matching file; one file that cannot be read.\<close>

definition no_dir_env :: run_env where
  "no_dir_env =
     \<lparr>data_dir_exists = False, matching_files = [], promos_file = Not_given,
      calendar_file = Not_given, clock = ''2024-01-01T00:00:00Z''\<rparr>"

definition no_files_env :: run_env where
  "no_files_env =
     \<lparr>data_dir_exists = True, matching_files = [], promos_file = Not_given,
      calendar_file = Not_given, clock = ''2024-01-01T00:00:00Z''\<rparr>"

definition unreadable_file_env :: run_env where
  "unreadable_file_env =
     \<lparr>data_dir_exists = True, matching_files = [(''sales_weekly_1.csv'', Load_failed ''bad file'')],
      promos_file = Not_given, calendar_file = Not_given, clock = ''2024-01-01T00:00:00Z''\<rparr>"

text \<open>
  Example files with the nine expected columns, as \<^verbatim>\<open>read_csv\<close> loads them, and
  conversions that parse the texts these files use (2023-01-02 is day 19359). The load
  time of \<open>sales_file_row\<close> is written without a timezone; the text with a Z is the
  same instant with one.
\<close>

definition sales_file_row :: "string \<Rightarrow> string \<Rightarrow> string \<Rightarrow> real \<Rightarrow> real \<Rightarrow> cell list" where
  "sales_file_row w s c u p =
     [Str w, Str s, Str c, Num u, Num p, Num 100, Str ''USD'', Str ''2023-01-03 00:00:00'',
      Str ''erp.csv'']"

definition example_pandas :: pandas where
  "example_pandas =
     \<lparr>to_numeric = (\<lambda>c. case c of Num x \<Rightarrow> Some x | _ \<Rightarrow> None),
      to_datetime = (\<lambda>c. case c of
                       Str s \<Rightarrow> map_of [(''2023-01-02'', 19359 * ns_per_day),
                                        (''2023-01-09'', 19366 * ns_per_day),
                                        (''2023-01-16'', 19373 * ns_per_day),
                                        (''2023-01-03 00:00:00'', 19360 * ns_per_day),
                                        (''2023-01-03T00:00:00Z'', 19360 * ns_per_day)] s
                     | TS n \<Rightarrow> Some n
                     | _ \<Rightarrow> None),
      has_timezone = (\<lambda>c. c = Str ''2023-01-03T00:00:00Z''),
      astype_str = (\<lambda>c. case c of Str s \<Rightarrow> s | _ \<Rightarrow> ''nan'')\<rparr>"

text \<open>Three weeks of one series, with the same units and the same price in every week.\<close>

definition three_week_file :: "real \<Rightarrow> real \<Rightarrow> raw_table" where
  "three_week_file u p =
     \<lparr>raw_columns = expected_schema_v1,
      raw_rows = [sales_file_row ''2023-01-02'' ''S1'' ''C1'' u p,
                  sales_file_row ''2023-01-09'' ''S1'' ''C1'' u p,
                  sales_file_row ''2023-01-16'' ''S1'' ''C1'' u p]\<rparr>"

text \<open>The row \<^verbatim>\<open>normalize_df\<close> makes of \<open>sales_file_row\<close>, the week given as its day.\<close>

definition normalized_sales_row :: "int \<Rightarrow> string \<Rightarrow> string \<Rightarrow> real \<Rightarrow> real \<Rightarrow> row" where
  "normalized_sales_row w s c u p =
     \<lparr>week_start = Some (w * ns_per_day), week_start_tz = False, sku_id = Str s,
      store_id = Str c, units = Some u, price = Some p, load_ts = Str ''2023-01-03 00:00:00'',
      load_ts_parsed = Some (19360 * ns_per_day), load_ts_tz = False, delta_days = None,
      other = [(''inventory_on_hand'', Num 100), (''currency'', Str ''USD''),
               (''source_file'', Str ''erp.csv'')]\<rparr>"

definition normalized_columns :: "string list" where
  "normalized_columns = expected_schema_v1 @ [''load_ts_parsed'']"

definition three_week_table :: "real \<Rightarrow> real \<Rightarrow> table" where
  "three_week_table u p =
     \<lparr>columns = normalized_columns,
      rows = [normalized_sales_row 19359 ''S1'' ''C1'' u p,
              normalized_sales_row 19366 ''S1'' ''C1'' u p,
              normalized_sales_row 19373 ''S1'' ''C1'' u p]\<rparr>"

text \<open>
  The clean file (units 50, price 5.50) with its load time written with a Z, as
  \<^verbatim>\<open>2023-01-03T00:00:00Z\<close>, and the frame \<^verbatim>\<open>normalize_df\<close> makes of it.
\<close>

definition utc_load_file :: raw_table where
  "utc_load_file =
     \<lparr>raw_columns = expected_schema_v1,
      raw_rows = map (\<lambda>r. r[7 := Str ''2023-01-03T00:00:00Z''])
                   (raw_rows (three_week_file 50 (11 / 2)))\<rparr>"

definition utc_load_table :: table where
  "utc_load_table =
     \<lparr>columns = normalized_columns,
      rows = map (\<lambda>r. r\<lparr>load_ts := Str ''2023-01-03T00:00:00Z'', load_ts_tz := True\<rparr>)
               (rows (three_week_table 50 (11 / 2)))\<rparr>"

definition utc_load_env :: run_env where
  "utc_load_env =
     \<lparr>data_dir_exists = True, matching_files = [(''sales_weekly_1.csv'', Loaded utc_load_file)],
      promos_file = Not_given, calendar_file = Not_given, clock = ''2024-01-01T00:00:00Z''\<rparr>"

text \<open>A run over one clean file: units 50 and price 5.50 in each of three weeks.\<close>

definition clean_file_env :: run_env where
  "clean_file_env =
     \<lparr>data_dir_exists = True,
      matching_files = [(''sales_weekly_1.csv'', Loaded (three_week_file 50 (11 / 2)))],
      promos_file = Not_given, calendar_file = Not_given, clock = ''2024-01-01T00:00:00Z''\<rparr>"

text \<open>A store with one normalized frame and one promo table.\<close>

definition promos_table :: raw_table where
  "promos_table =
     \<lparr>raw_columns = [''week_start'', ''promo_flag''], raw_rows = [[Str ''2023-01-09'', Num 1]]\<rparr>"

definition example_store :: store where
  "example_store = \<lparr>frames = [three_week_table 50 (11 / 2)], side_tables = [promos_table]\<rparr>"

section \<open>Properties of the duplicate check\<close>

lemma length_duplicated_keep_false [simp]:
  "length (duplicated_keep_false seen ks) = length ks"
  by (induction ks arbitrary: seen) simp_all

lemma count_list_pos_iff: "0 < count_list ks k \<longleftrightarrow> k \<in> set ks"
  by (induction ks) auto

lemma select_duplicated_keep_false:
  "select_rows rs (duplicated_keep_false seen (map f rs)) =
     filter (\<lambda>r. f r \<in> set seen \<or> 1 < count_list (map f rs) (f r)) rs"
proof (induction rs arbitrary: seen)
  case Nil
  show ?case by (simp add: select_rows_def)
next
  case (Cons a rs)
  have tl: "select_rows rs (duplicated_keep_false (f a # seen) (map f rs)) =
      filter (\<lambda>r. f r \<in> set (f a # seen) \<or> 1 < count_list (map f rs) (f r)) rs"
    by (rule Cons.IH)
  have same: "filter (\<lambda>r. f r \<in> set (f a # seen) \<or> 1 < count_list (map f rs) (f r)) rs =
      filter (\<lambda>r. f r \<in> set seen \<or> 1 < count_list (map f (a # rs)) (f r)) rs"
  proof (rule filter_cong [OF refl])
    fix r assume "r \<in> set rs"
    then have "0 < count_list (map f rs) (f r)"
      by (simp add: count_list_pos_iff)
    then show "(f r \<in> set (f a # seen) \<or> 1 < count_list (map f rs) (f r)) =
        (f r \<in> set seen \<or> 1 < count_list (map f (a # rs)) (f r))"
      by auto
  qed
  have hd: "(f a \<in> set seen \<or> f a \<in> set (map f rs)) =
      (f a \<in> set seen \<or> 1 < count_list (map f (a # rs)) (f a))"
    using count_list_pos_iff [of "map f rs" "f a"] by auto
  show ?case
    using tl same hd by (simp add: select_rows_def)
qed

lemma mask_sum_select:
  "length msk = length rs \<Longrightarrow> mask_sum msk = length (select_rows rs msk)"
proof (induction rs arbitrary: msk)
  case Nil
  then show ?case by (simp add: mask_sum_def select_rows_def)
next
  case (Cons a rs)
  then obtain b bs where m: "msk = b # bs" and l: "length bs = length rs"
    by (cases msk) auto
  from Cons.IH [OF l] show ?case
    by (simp add: m mask_sum_def select_rows_def)
qed

lemma key_repeats_fn:
  "key_repeats pk df =
     (\<lambda>r. 1 < count_list (map (subset_key pk) (rows df)) (subset_key pk r))"
  by (rule ext) (simp add: key_repeats_def)

lemma select_duplicated:
  "select_rows (rows df) (duplicated df pk) = filter (key_repeats pk df) (rows df)"
  using select_duplicated_keep_false [of "rows df" "[]" "subset_key pk"]
  by (simp add: duplicated_def key_repeats_fn)

lemma mask_sum_duplicated:
  "mask_sum (duplicated df pk) = length (filter (key_repeats pk df) (rows df))"
  using mask_sum_select [of "duplicated df pk" "rows df"]
  by (simp add: duplicated_def select_duplicated [unfolded duplicated_def])

lemma check_duplicates_ok:
  assumes "list_all (\<lambda>c. c \<in> set (columns df)) pk"
  shows "check_duplicates df pk =
     \<lparr>dup_status = ''ok'', dup_pk = pk,
      duplicate_count = Some (length (filter (key_repeats pk df) (rows df))),
      sample = take 10 (filter (key_repeats pk df) (rows df))\<rparr>"
proof -
  from assms have "\<not> list_ex (\<lambda>c. c \<notin> set (columns df)) pk"
    by (simp add: list_all_iff list_ex_iff)
  then show ?thesis
    by (simp add: check_duplicates_def Let_def mask_sum_duplicated select_duplicated)
qed

lemma duplicated_keep_false_nth:
  "i < length ks \<Longrightarrow>
   duplicated_keep_false seen ks ! i =
     (ks ! i \<in> set seen \<or> (\<exists>j<length ks. j \<noteq> i \<and> ks ! j = ks ! i))"
proof (induction ks arbitrary: seen i)
  case Nil
  then show ?case by simp
next
  case (Cons k ks)
  show ?case
  proof (cases i)
    case 0
    have "(k \<in> set ks) = (\<exists>j<Suc (length ks). j \<noteq> 0 \<and> (k # ks) ! j = k)"
      by (auto simp: in_set_conv_nth less_Suc_eq_0_disj)
    with 0 show ?thesis by simp
  next
    case (Suc i')
    with Cons.prems have l: "i' < length ks" by simp
    have "(\<exists>j<Suc (length ks). j \<noteq> Suc i' \<and> (k # ks) ! j = ks ! i') =
          (k = ks ! i' \<or> (\<exists>j<length ks. j \<noteq> i' \<and> ks ! j = ks ! i'))"
      by (auto simp: less_Suc_eq_0_disj)
    with Suc Cons.IH [OF l, of "k # seen"] show ?thesis by auto
  qed
qed

lemma duplicated_nth:
  "i < length (rows df) \<Longrightarrow>
   duplicated df pk ! i =
     (\<exists>j<length (rows df). j \<noteq> i \<and> subset_key pk (rows df ! j) = subset_key pk (rows df ! i))"
  using duplicated_keep_false_nth [of i "map (subset_key pk) (rows df)" "[]"]
  by (simp add: duplicated_def cong: conj_cong)

lemma distinct_count_list_le: "distinct ks \<Longrightarrow> count_list ks k \<le> 1"
  by (induction ks) (auto simp: count_list_0_iff)

lemma count_list_map_filter: "count_list (map f xs) y = length (filter (\<lambda>x. f x = y) xs)"
  by (induction xs) auto

lemma length_filter_mono:
  "(\<And>x. x \<in> set xs \<Longrightarrow> Q x \<Longrightarrow> P x) \<Longrightarrow> length (filter Q xs) \<le> length (filter P xs)"
  by (induction xs) auto

lemma repeats_at_least_two:
  assumes "r \<in> set (rows df)" and "key_repeats pk df r"
  shows "2 \<le> length (filter (key_repeats pk df) (rows df))"
proof -
  let ?same = "\<lambda>x. subset_key pk x = subset_key pk r"
  have "1 < length (filter ?same (rows df))"
    using assms(2) by (simp add: key_repeats_def count_list_map_filter)
  moreover have "length (filter ?same (rows df)) \<le> length (filter (key_repeats pk df) (rows df))"
  proof (rule length_filter_mono)
    fix x assume "x \<in> set (rows df)" and "?same x"
    with assms(2) show "key_repeats pk df x" by (simp add: key_repeats_def)
  qed
  ultimately show ?thesis by simp
qed

lemma repeats_count_not_one:
  "length (filter (key_repeats pk df) (rows df)) \<noteq> 1"
proof
  assume one: "length (filter (key_repeats pk df) (rows df)) = 1"
  then have "filter (key_repeats pk df) (rows df) \<noteq> []" by auto
  then obtain r where "r \<in> set (rows df)" and "key_repeats pk df r"
    by (auto simp: filter_empty_conv)
  from repeats_at_least_two [OF this] one show False by simp
qed

text \<open>
  C6: on a frame that has every primary-key column, \<open>duplicate_count\<close> is exactly the
  number of rows whose key (the default key is week_start, sku_id, store_id) occurs at
  more than one row. When all keys are distinct the count is 0 and the sample is empty;
  when every row's key occurs again the count is the number of rows.
\<close>

theorem check_duplicates_exact:
  "list_all (\<lambda>c. c \<in> set (columns df)) pk \<Longrightarrow>
   duplicate_count (check_duplicates df pk) =
     Some (length (filter (key_repeats pk df) (rows df))) \<and>
   (distinct (map (subset_key pk) (rows df)) \<longrightarrow>
      duplicate_count (check_duplicates df pk) = Some 0 \<and> sample (check_duplicates df pk) = []) \<and>
   (list_all (key_repeats pk df) (rows df) \<longrightarrow>
      duplicate_count (check_duplicates df pk) = Some (length (rows df)))"
proof -
  assume cols: "list_all (\<lambda>c. c \<in> set (columns df)) pk"
  note ok = check_duplicates_ok [OF cols]
  have none: "filter (key_repeats pk df) (rows df) = []"
    if "distinct (map (subset_key pk) (rows df))"
  proof -
    have "\<not> key_repeats pk df r" for r
      using distinct_count_list_le [OF that, of "subset_key pk r"]
      by (simp add: key_repeats_def)
    then show ?thesis by simp
  qed
  have all: "filter (key_repeats pk df) (rows df) = rows df"
    if "list_all (key_repeats pk df) (rows df)"
    using that by (simp add: list_all_iff)
  show ?thesis
    using none all by (simp add: ok)
qed

theorem check_duplicates_exact_witness:
  "duplicate_count (check_duplicates repeated_key_table default_pk) = Some 2 \<and>
   duplicate_count (check_duplicates distinct_key_table default_pk) = Some 0 \<and>
   sample (check_duplicates distinct_key_table default_pk) = [] \<and>
   duplicate_count (check_duplicates mixed_key_table default_pk) = Some 2"
proof -
  have c1: "list_all (\<lambda>c. c \<in> set (columns repeated_key_table)) default_pk"
    by (simp add: repeated_key_table_def sales_columns_def default_pk_def)
  have c2: "list_all (\<lambda>c. c \<in> set (columns distinct_key_table)) default_pk"
    by (simp add: distinct_key_table_def sales_columns_def default_pk_def)
  have c3: "list_all (\<lambda>c. c \<in> set (columns mixed_key_table)) default_pk"
    by (simp add: mixed_key_table_def sales_columns_def default_pk_def)
  have r1: "list_all (key_repeats default_pk repeated_key_table) (rows repeated_key_table)"
    by (simp add: key_repeats_def repeated_key_table_def default_pk_def subset_key_def
        field_def sales_row_def ts_cell_def)
  have d2: "distinct (map (subset_key default_pk) (rows distinct_key_table))"
    by (simp add: distinct_key_table_def default_pk_def subset_key_def
        field_def sales_row_def ts_cell_def)
  have m3: "length (filter (key_repeats default_pk mixed_key_table) (rows mixed_key_table)) = 2"
    by (simp add: key_repeats_def mixed_key_table_def default_pk_def subset_key_def
        field_def sales_row_def ts_cell_def)
  have l1: "length (rows repeated_key_table) = 2"
    by (simp add: repeated_key_table_def)
  from check_duplicates_exact [OF c1] r1 l1
  have a: "duplicate_count (check_duplicates repeated_key_table default_pk) = Some 2"
    by auto
  from check_duplicates_exact [OF c2] d2
  have b: "duplicate_count (check_duplicates distinct_key_table default_pk) = Some 0 \<and>
      sample (check_duplicates distinct_key_table default_pk) = []"
    by blast
  from check_duplicates_exact [OF c3] m3
  have c: "duplicate_count (check_duplicates mixed_key_table default_pk) = Some 2"
    by auto
  from a b c show ?thesis by blast
qed

text \<open>
  C10: on a frame that has every primary-key column, \<open>duplicate_count\<close> is never 1:
  every row the mask counts has a partner row with the same key at another position, and
  the partner is counted too. The sample is non-empty exactly when the count is positive,
  and it holds at most 10 rows.
\<close>

theorem duplicate_count_never_one:
  "list_all (\<lambda>c. c \<in> set (columns df)) pk \<Longrightarrow>
   duplicate_count (check_duplicates df pk) \<noteq> Some 1 \<and>
   (\<forall>i<length (rows df). duplicated df pk ! i \<longrightarrow>
      (\<exists>j<length (rows df). j \<noteq> i \<and>
         subset_key pk (rows df ! j) = subset_key pk (rows df ! i) \<and> duplicated df pk ! j)) \<and>
   (sample (check_duplicates df pk) \<noteq> [] \<longleftrightarrow>
      (\<exists>n. duplicate_count (check_duplicates df pk) = Some n \<and> 0 < n)) \<and>
   length (sample (check_duplicates df pk)) \<le> 10"
proof -
  assume cols: "list_all (\<lambda>c. c \<in> set (columns df)) pk"
  note ok = check_duplicates_ok [OF cols]
  have partner: "\<exists>j<length (rows df). j \<noteq> i \<and>
         subset_key pk (rows df ! j) = subset_key pk (rows df ! i) \<and> duplicated df pk ! j"
    if i: "i < length (rows df)" and m: "duplicated df pk ! i" for i
  proof -
    from m obtain j where j: "j < length (rows df)" "j \<noteq> i"
        "subset_key pk (rows df ! j) = subset_key pk (rows df ! i)"
      using duplicated_nth [OF i, of pk] by auto
    then have "duplicated df pk ! j"
      using duplicated_nth [OF j(1), of pk] i by auto
    with j show ?thesis by blast
  qed
  show ?thesis
    using partner repeats_count_not_one [of pk df]
    by (simp add: ok)
qed

theorem duplicate_count_never_one_witness:
  "duplicate_count (check_duplicates mixed_key_table default_pk) = Some 2 \<and>
   length (sample (check_duplicates mixed_key_table default_pk)) = 2 \<and>
   duplicated mixed_key_table default_pk = [True, False, True]"
proof -
  have c3: "list_all (\<lambda>c. c \<in> set (columns mixed_key_table)) default_pk"
    by (simp add: mixed_key_table_def sales_columns_def default_pk_def)
  have m: "duplicated mixed_key_table default_pk = [True, False, True]"
    by (simp add: duplicated_def mixed_key_table_def default_pk_def subset_key_def
        field_def sales_row_def ts_cell_def)
  have s: "check_duplicates mixed_key_table default_pk =
     \<lparr>dup_status = ''ok'', dup_pk = default_pk, duplicate_count = Some 2,
      sample = [sales_row 0 ''S1'' ''C1'' 10 5, sales_row 0 ''S1'' ''C1'' 11 5]\<rparr>"
    using c3 by (simp add: check_duplicates_def Let_def m mask_sum_def select_rows_def
        list_all_iff list_ex_iff) (simp add: mixed_key_table_def)
  show ?thesis
    using duplicate_count_never_one [OF c3] m s by simp
qed

section \<open>Properties of the unit/price mixup check\<close>

lemma float_or_zero_id [simp]: "float_or_zero m = m"
  by (simp add: float_or_zero_def split: option.split)

lemma flt_gt_median_nonempty: "flt_gt (median xs) c \<Longrightarrow> 0 < length xs"
  by (cases xs) (simp_all add: flt_gt_def median_def)

lemma detect_unit_price_mixup_ok:
  assumes "''price'' \<in> set (columns df)" and "''units'' \<in> set (columns df)"
  shows "detect_unit_price_mixup df =
     Mixup_ok (price_median_of df) (units_median_of df)
       (if price_median_of df = Some 0 then None
        else Some (flt_div (units_median_of df) (price_median_of df)))
       (small_price_heuristic df \<or> integer_price_heuristic df)
       (if small_price_heuristic df then hint_small_price
        else if integer_price_heuristic df then hint_integer_price else '''')"
proof -
  have ne: "flt_gt (median (dropna (map price (rows df)))) 5 \<Longrightarrow>
      0 < length (dropna (map price (rows df)))"
    by (rule flt_gt_median_nonempty)
  show ?thesis
    using assms ne
    by (auto simp: detect_unit_price_mixup_def Let_def price_median_of_def units_median_of_def
        small_price_heuristic_def integer_price_heuristic_def integer_price_share_def
        series_median_def)
qed

lemmas fixture_simps = sales_row_def sales_columns_def
lemmas numeric_simps = series_median_def median_def flt_lt_def flt_gt_def flt_div_def
  bool_mean_def integer_valued_def price_median_of_def units_median_of_def
  integer_price_share_def small_price_heuristic_def

text \<open>
  C4, as stated, fails where exactly 90 percent of the prices are whole numbers: the
  claimed fallback heuristic holds of \<open>ninety_percent_table\<close> (share 9/10, price median
  6, units median 1), but the code compares the share with \<^verbatim>\<open>> 0.9\<close> and reports no
  mixup.
\<close>

theorem mixup_at_exactly_ninety_percent:
  "claimed_integer_price_heuristic ninety_percent_table \<and>
   suspected_unit_price_mixup (detect_unit_price_mixup ninety_percent_table) = Some False"
  by (simp add: ninety_percent_table_def fixture_simps numeric_simps
      claimed_integer_price_heuristic_def detect_unit_price_mixup_def Let_def
      suspected_unit_price_mixup_def)

text \<open>
  C4, amended: on every frame with a price and a units column, the mixup is suspected if
  and only if (a) the price median is below 1.5 and the units median above 10, or
  (b) heuristic (a) did not fire, more than 90 percent of the non-null prices are whole
  numbers, the price median is above 5 and the units median below 2. The hint is the one
  of the heuristic that matched, (a) before (b).
\<close>

theorem detect_unit_price_mixup_iff:
  "''price'' \<in> set (columns df) \<Longrightarrow> ''units'' \<in> set (columns df) \<Longrightarrow>
   suspected_unit_price_mixup (detect_unit_price_mixup df) =
     Some (small_price_heuristic df \<or> integer_price_heuristic df) \<and>
   (small_price_heuristic df \<longrightarrow>
      mixup_hint (detect_unit_price_mixup df) = Some hint_small_price) \<and>
   (integer_price_heuristic df \<longrightarrow>
      mixup_hint (detect_unit_price_mixup df) = Some hint_integer_price)"
  by (simp add: detect_unit_price_mixup_ok suspected_unit_price_mixup_def mixup_hint_def
      integer_price_heuristic_def)

theorem detect_unit_price_mixup_iff_witness:
  "suspected_unit_price_mixup (detect_unit_price_mixup swapped_table) = Some True \<and>
   mixup_hint (detect_unit_price_mixup swapped_table) = Some hint_small_price \<and>
   suspected_unit_price_mixup (detect_unit_price_mixup price_six_table) = Some True \<and>
   mixup_hint (detect_unit_price_mixup price_six_table) = Some hint_integer_price \<and>
   suspected_unit_price_mixup (detect_unit_price_mixup price_five_table) = Some False"
proof -
  have c1: "''price'' \<in> set (columns swapped_table)" "''units'' \<in> set (columns swapped_table)"
    by (simp_all add: swapped_table_def sales_columns_def)
  have c2: "''price'' \<in> set (columns price_six_table)" "''units'' \<in> set (columns price_six_table)"
    by (simp_all add: price_six_table_def sales_columns_def)
  have c3: "''price'' \<in> set (columns price_five_table)" "''units'' \<in> set (columns price_five_table)"
    by (simp_all add: price_five_table_def sales_columns_def)
  have h1: "small_price_heuristic swapped_table"
    by (simp add: swapped_table_def fixture_simps numeric_simps)
  have h2: "integer_price_heuristic price_six_table"
    by (simp add: price_six_table_def fixture_simps numeric_simps integer_price_heuristic_def)
  have h3: "\<not> small_price_heuristic price_five_table" "\<not> integer_price_heuristic price_five_table"
    by (simp_all add: price_five_table_def fixture_simps numeric_simps integer_price_heuristic_def)
  from detect_unit_price_mixup_iff [OF c1] detect_unit_price_mixup_iff [OF c2]
    detect_unit_price_mixup_iff [OF c3] h1 h2 h3
  show ?thesis by simp
qed

section \<open>Properties of the level-shift check\<close>

lemma sort_key_same_key:
  "(\<And>x. x \<in> set xs \<Longrightarrow> f x = c) \<Longrightarrow> sort_key f xs = xs"
proof (induction xs)
  case Nil
  show ?case by simp
next
  case (Cons a xs)
  then have "sort_key f xs = xs" by simp
  moreover have "insort_key f a xs = a # xs"
    using Cons.prems by (cases xs) simp_all
  ultimately show ?case by simp
qed

lemma remdups_same:
  "xs \<noteq> [] \<Longrightarrow> (\<And>x. x \<in> set xs \<Longrightarrow> x = k) \<Longrightarrow> remdups xs = [k]"
proof (induction xs)
  case Nil
  then show ?case by simp
next
  case (Cons a xs)
  show ?case
  proof (cases "xs = []")
    case True
    with Cons.prems show ?thesis by simp
  next
    case False
    with Cons have "remdups xs = [k]" by simp
    moreover from False Cons.prems have "a \<in> set xs"
      by (cases xs) auto
    ultimately show ?thesis by simp
  qed
qed

lemma group_rows_single:
  assumes "rs \<noteq> []" and "\<And>r. r \<in> set rs \<Longrightarrow> group_key r = k"
    and "fst k \<noteq> NA" and "snd k \<noteq> NA"
  shows "group_rows rs = [(k, rs)]"
proof -
  have "sku_id r = fst k \<and> store_id r = snd k" if "r \<in> set rs" for r
    using assms(2) [OF that] by (auto simp: group_key_def)
  then have keyed: "filter (\<lambda>r. sku_id r \<noteq> NA \<and> store_id r \<noteq> NA) rs = rs"
    using assms(3,4) by (simp add: filter_id_conv)
  have keys: "remdups (map group_key rs) = [k]"
    using assms(1,2) by (intro remdups_same) auto
  have all: "filter (\<lambda>r. group_key r = k) rs = rs"
    using assms(2) by (simp add: filter_id_conv)
  show ?thesis
    by (simp add: group_rows_def Let_def keyed keys all)
qed

lemma tied_rows_facts:
  "us \<noteq> [] \<Longrightarrow> group_rows (tied_rows us) = [((Str ''S1'', Str ''C1''), tied_rows us)]"
  "sort_key level_sort_key (tied_rows us) = tied_rows us"
  "dropna (map units (tied_rows us)) = us"
proof -
  show "us \<noteq> [] \<Longrightarrow> group_rows (tied_rows us) = [((Str ''S1'', Str ''C1''), tied_rows us)]"
    by (rule group_rows_single) (auto simp: tied_rows_def group_key_def sales_row_def)
  show "sort_key level_sort_key (tied_rows us) = tied_rows us"
    by (rule sort_key_same_key [where c = "level_sort_key (sales_row 0 ''S1'' ''C1'' 0 5)"])
      (auto simp: tied_rows_def level_sort_key_def sales_row_def)
  show "dropna (map units (tied_rows us)) = us"
    by (induction us) (simp_all add: tied_rows_def sales_row_def)
qed

lemma tied_table_level_shift:
  assumes "us \<noteq> []"
  shows "detect_level_shift \<lparr>columns = sales_columns, rows = tied_rows us\<rparr> w z =
    (case level_shift_step w z (0, 0, []) ((Str ''S1'', Str ''C1''), tied_rows us) of
       (t, s, ex) \<Rightarrow> Inr (Shift_ok t s (take 10 ex)))"
  using assms
  by (simp add: detect_level_shift_def level_shift_groups_def sort_values_def groupby_sku_store_def sales_columns_def
      tied_rows_facts)

lemma z_ge_iff:
  assumes "0 < v" and "0 \<le> t"
  shows "(t \<le> \<bar>d\<bar> / sqrt v) = (t\<^sup>2 * v \<le> d\<^sup>2)"
proof -
  have "(t \<le> \<bar>d\<bar> / sqrt v) = (t * sqrt v \<le> \<bar>d\<bar>)"
    using assms by (simp add: pos_le_divide_eq)
  also have "\<dots> = (\<bar>t * sqrt v\<bar> \<le> \<bar>d\<bar>)"
    using assms by simp
  also have "\<dots> = ((t * sqrt v)\<^sup>2 \<le> d\<^sup>2)"
    by (rule abs_le_square_iff)
  also have "\<dots> = (t\<^sup>2 * v \<le> d\<^sup>2)"
    using assms by (simp add: power_mult_distrib)
  finally show ?thesis .
qed


lemma step_units_stats:
  "mean (take 8 step_units) = Some 0"
  "mean (last_window 8 step_units) = Some 100"
  "variance step_units = Some (40000 / 47)"
  "step_units \<noteq> []" "length step_units = 48"
  by (simp_all add: step_units_def mean_def last_window_def variance_def sum_list_replicate)

lemma shuffled_units_stats:
  "mean (take 8 shuffled_units) = Some 50"
  "mean (last_window 8 shuffled_units) = Some 50"
  "variance shuffled_units = Some (40000 / 47)"
  "shuffled_units \<noteq> []" "length shuffled_units = 48"
  by (simp_all add: shuffled_units_def mean_def last_window_def variance_def sum_list_replicate)

lemma step_table_level_shift:
  "detect_level_shift step_table 8 3 =
     Inr (Shift_ok 1 1 [Shift_example (Str ''S1'') (Str ''C1'') (Some (100 / sqrt (40000 / 47))) (Some 0) (Some 100)])"
proof -
  have z: "(3::real) \<le> \<bar>100\<bar> / sqrt (40000 / 47)"
    by (subst z_ge_iff) simp_all
  show ?thesis
    using z
    by (simp add: step_table_def tied_table_level_shift level_shift_step_def tied_rows_facts
      step_units_stats std_def z_score_def Let_def)
qed

lemma shuffled_step_table_level_shift:
  "detect_level_shift shuffled_step_table 8 3 = Inr (Shift_ok 1 0 [])"
  by (simp add: shuffled_step_table_def tied_table_level_shift level_shift_step_def tied_rows_facts
      shuffled_units_stats std_def z_score_def Let_def)


lemma cell_key_inj: "cell_key a = cell_key b \<longleftrightarrow> a = b"
  by (cases a; cases b) (simp_all add: cell_key_def)

lemma ts_key_inj: "ts_key a = ts_key b \<longleftrightarrow> a = b"
  by (cases a; cases b) (simp_all add: ts_key_def)

lemma level_sort_key_eq_iff: "level_sort_key r = level_sort_key r' \<longleftrightarrow> tie_key r = tie_key r'"
  by (simp add: level_sort_key_def tie_key_def cell_key_inj ts_key_inj)

lemma sort_key_tie_preserving:
  assumes m: "mset ys = mset xs"
    and t: "\<And>k. filter (\<lambda>r. tie_key r = k) ys = filter (\<lambda>r. tie_key r = k) xs"
  shows "sort_key level_sort_key ys = sort_key level_sort_key xs"
proof (rule properties_for_sort_key)
  show "mset (sort_key level_sort_key xs) = mset ys"
    using m by simp
  show "sorted (map level_sort_key (sort_key level_sort_key xs))"
    by (rule sorted_sort_key)
  fix k
  have "filter (\<lambda>x. level_sort_key k = level_sort_key x) (sort_key level_sort_key xs) =
      filter (\<lambda>x. level_sort_key x = level_sort_key k) (sort_key level_sort_key xs)"
    by (rule filter_cong) auto
  also have "\<dots> = filter (\<lambda>x. level_sort_key x = level_sort_key k) xs"
    by (rule sort_key_stable)
  also have "\<dots> = filter (\<lambda>r. tie_key r = tie_key k) xs"
    by (simp add: level_sort_key_eq_iff)
  also have "\<dots> = filter (\<lambda>r. tie_key r = tie_key k) ys"
    by (rule t [symmetric])
  also have "\<dots> = filter (\<lambda>x. level_sort_key k = level_sort_key x) ys"
    by (rule filter_cong) (auto simp: level_sort_key_eq_iff)
  finally show "filter (\<lambda>x. level_sort_key k = level_sort_key x) (sort_key level_sort_key xs) =
      filter (\<lambda>x. level_sort_key k = level_sort_key x) ys" .
qed

lemma mset_singleton_or_empty:
  assumes "mset as = mset bs" and "length bs \<le> 1"
  shows "as = bs"
proof -
  from assms(1) have l: "length as = length bs" by (rule mset_eq_length)
  show ?thesis
  proof (cases bs)
    case Nil
    with l show ?thesis by simp
  next
    case (Cons b bs')
    with assms(2) have "bs = [b]" by simp
    with assms(1) show ?thesis by simp
  qed
qed

lemma distinct_filter_key_le_one:
  "distinct (map f xs) \<Longrightarrow> length (filter (\<lambda>r. f r = k) xs) \<le> 1"
proof (induction xs)
  case Nil
  show ?case by simp
next
  case (Cons a xs)
  show ?case
  proof (cases "f a = k")
    case True
    from Cons.prems have "f a \<notin> f ` set xs" by simp
    then have "f x \<noteq> f a" if "x \<in> set xs" for x
      using that by (metis imageI)
    with True have "filter (\<lambda>r. f r = k) xs = []"
      by (simp add: filter_empty_conv)
    with True show ?thesis by simp
  next
    case False
    with Cons show ?thesis by simp
  qed
qed

lemma distinct_ties_preserved:
  assumes "mset ys = mset xs" and "distinct (map tie_key xs)"
  shows "filter (\<lambda>r. tie_key r = k) ys = filter (\<lambda>r. tie_key r = k) xs"
proof (rule mset_singleton_or_empty)
  show "mset (filter (\<lambda>r. tie_key r = k) ys) = mset (filter (\<lambda>r. tie_key r = k) xs)"
    using assms(1) by simp
  show "length (filter (\<lambda>r. tie_key r = k) xs) \<le> 1"
    using assms(2) by (rule distinct_filter_key_le_one)
qed

text \<open>
  C7, as stated, fails when rows of a group share their week_start: the sort is stable,
  so such rows keep the order of the input. \<open>shuffled_step_table\<close> is a permutation of
  the rows of \<open>step_table\<close> (one group, one week); with the default window 8 and
  threshold 3 the first reports a level shift in no group and the second in one.
\<close>

theorem level_shift_depends_on_order_of_ties:
  "columns shuffled_step_table = columns step_table \<and>
   mset (rows shuffled_step_table) = mset (rows step_table) \<and>
   detect_level_shift step_table 8 3 =
     Inr (Shift_ok 1 1 [Shift_example (Str ''S1'') (Str ''C1'')
                          (Some (100 / sqrt (40000 / 47))) (Some 0) (Some 100)]) \<and>
   detect_level_shift shuffled_step_table 8 3 = Inr (Shift_ok 1 0 [])"
proof -
  have "mset shuffled_units = mset step_units"
    by (simp add: shuffled_units_def step_units_def)
  then have "mset (rows shuffled_step_table) = mset (rows step_table)"
    by (simp add: shuffled_step_table_def step_table_def tied_rows_def)
  then show ?thesis
    by (simp add: step_table_level_shift shuffled_step_table_level_shift)
      (simp add: shuffled_step_table_def step_table_def)
qed

text \<open>
  C7, amended: on frames with the same columns, a permutation of the rows that keeps the
  relative order of the rows agreeing on (sku_id, store_id, week_start) does not change
  the record \<^verbatim>\<open>detect_level_shift\<close> returns; in particular no permutation does when no
  two rows agree on the three columns.
\<close>

theorem detect_level_shift_permutation:
  "columns df' = columns df \<Longrightarrow> mset (rows df') = mset (rows df) \<Longrightarrow>
   distinct (map tie_key (rows df)) \<or>
     (\<forall>k. filter (\<lambda>r. tie_key r = k) (rows df') = filter (\<lambda>r. tie_key r = k) (rows df)) \<Longrightarrow>
   detect_level_shift df' window z_threshold = detect_level_shift df window z_threshold"
proof -
  assume c: "columns df' = columns df" and m: "mset (rows df') = mset (rows df)"
    and d: "distinct (map tie_key (rows df)) \<or>
     (\<forall>k. filter (\<lambda>r. tie_key r = k) (rows df') = filter (\<lambda>r. tie_key r = k) (rows df))"
  have t: "filter (\<lambda>r. tie_key r = k) (rows df') = filter (\<lambda>r. tie_key r = k) (rows df)" for k
    using d distinct_ties_preserved [OF m] by blast
  have s: "sort_key level_sort_key (rows df') = sort_key level_sort_key (rows df)"
    using m t by (rule sort_key_tie_preserving)
  have "sort_values df' = sort_values df"
    using c s by (simp add: sort_values_def)
  then show ?thesis
    using c by (simp add: detect_level_shift_def level_shift_groups_def)
qed

theorem detect_level_shift_permutation_witness:
  "detect_level_shift reordered_table 1 (3 / 2) = detect_level_shift ordered_table 1 (3 / 2) \<and>
   detect_level_shift ordered_table 1 (3 / 2) =
     Inr (Shift_ok 1 1 [Shift_example (Str ''S1'') (Str ''C1'') (Some (100 / sqrt 2500)) (Some 0) (Some 100)])"
proof -
  have c: "columns reordered_table = columns ordered_table"
    by (simp add: reordered_table_def ordered_table_def)
  have m: "mset (rows reordered_table) = mset (rows ordered_table)"
    by (simp add: reordered_table_def ordered_table_def)
  have d: "distinct (map tie_key (rows ordered_table))"
    by (simp add: ordered_table_def tie_key_def sales_row_def)
  have z: "(3 / 2 :: real) \<le> \<bar>100\<bar> / sqrt 2500"
    by (subst z_ge_iff) (simp_all add: power2_eq_square)
  have v: "detect_level_shift ordered_table 1 (3 / 2) =
     Inr (Shift_ok 1 1 [Shift_example (Str ''S1'') (Str ''C1'') (Some (100 / sqrt 2500)) (Some 0) (Some 100)])"
    using z
    by (simp add: ordered_table_def detect_level_shift_def level_shift_groups_def sort_values_def groupby_sku_store_def
        sales_columns_def group_rows_def group_key_def sales_row_def level_sort_key_def
        cell_key_def ts_key_def level_shift_step_def mean_def variance_def std_def
        last_window_def z_score_def Let_def power2_eq_square)
  from detect_level_shift_permutation [OF c m disjI1 [OF d], of 1 "3 / 2"] v
  show ?thesis by simp
qed

section \<open>Missing key columns\<close>

text \<open>
  C2: \<^verbatim>\<open>check_date_continuity\<close> guards only week_start and \<^verbatim>\<open>detect_level_shift\<close> only
  units and week_start before they group by sku_id and store_id. On a frame that has
  week_start but no sku_id the first raises KeyError instead of returning a record with a
  sentinel status, and so does the second when the frame has units as well.
\<close>

theorem missing_sku_id_raises:
  "''week_start'' \<in> set (columns df) \<Longrightarrow> ''sku_id'' \<notin> set (columns df) \<Longrightarrow>
   check_date_continuity df freq_days allowed_gaps = Inl (KeyError ''sku_id'') \<and>
   (''units'' \<in> set (columns df) \<longrightarrow>
      detect_level_shift df window z_threshold = Inl (KeyError ''sku_id''))"
  by (simp add: check_date_continuity_def detect_level_shift_def groupby_sku_store_def
      sort_values_def)

theorem missing_sku_id_raises_witness:
  "check_date_continuity no_key_columns_table 7 1 = Inl (KeyError ''sku_id'') \<and>
   detect_level_shift no_key_columns_table 8 3 = Inl (KeyError ''sku_id'')"
proof -
  have c: "''week_start'' \<in> set (columns no_key_columns_table)"
      "''sku_id'' \<notin> set (columns no_key_columns_table)"
      "''units'' \<in> set (columns no_key_columns_table)"
    by (simp_all add: no_key_columns_table_def)
  from missing_sku_id_raises [OF c(1,2), of 7 1 8 3] c(3) show ?thesis
    by simp
qed

section \<open>Properties of the Analyzer and the Runner\<close>

text \<open>
  C3: the blocking policy is a function of the diagnostic records it reads. The verdict
  is FAIL exactly when the reason list is non-empty and PASS otherwise; each reason is in
  the list exactly when its own rule fires, whatever the other rules do; and the list is
  in the fixed order missing_schema_columns, duplicates, partial_backfill_pct,
  unit_price_mixup_suspected, level_shift_groups, timezone_anomaly_or_dup_pk, each at most
  once.
\<close>

theorem blocking_logic_policy:
  "(blocking_of (blocking_logic sch dup pb mx ls tz) = FAIL \<longleftrightarrow>
      blocking_logic sch dup pb mx ls tz \<noteq> []) \<and>
   (blocking_of (blocking_logic sch dup pb mx ls tz) = PASS \<longleftrightarrow>
      blocking_logic sch dup pb mx ls tz = []) \<and>
   sorted_wrt (<) (map reason_rank (blocking_logic sch dup pb mx ls tz)) \<and>
   (Missing_schema_columns \<in> set (blocking_logic sch dup pb mx ls tz) \<longleftrightarrow>
      missing_columns sch \<noteq> []) \<and>
   (Duplicates n \<in> set (blocking_logic sch dup pb mx ls tz) \<longleftrightarrow>
      duplicate_count dup = Some n \<and> 1 \<le> n) \<and>
   (Partial_backfill_pct p \<in> set (blocking_logic sch dup pb mx ls tz) \<longleftrightarrow>
      pct_backfilled pb = Some p \<and> p > 0.20) \<and>
   (Unit_price_mixup_suspected \<in> set (blocking_logic sch dup pb mx ls tz) \<longleftrightarrow>
      suspected_unit_price_mixup mx = Some True) \<and>
   (Level_shift_groups k \<in> set (blocking_logic sch dup pb mx ls tz) \<longleftrightarrow>
      (\<exists>n. k = Some n \<and> groups_with_level_shift ls = Some n \<and> 1 \<le> n)) \<and>
   (Timezone_anomaly_or_dup_pk \<in> set (blocking_logic sch dup pb mx ls tz) \<longleftrightarrow>
      suspicious tz = Some True) \<and>
   Read_error \<notin> set (blocking_logic sch dup pb mx ls tz)"
  by (auto simp: blocking_logic_def blocking_of_def reason_rank_def
      duplicate_block_threshold_def partial_backfill_pct_threshold_def
      level_shift_groups_threshold_def split: option.splits)


theorem blocking_logic_policy_witness:
  "blocking_logic failing_schema failing_duplicates failing_backfill failing_mixup
     failing_level_shift failing_tz =
     [Missing_schema_columns, Duplicates 2, Partial_backfill_pct (1 / 2),
      Unit_price_mixup_suspected, Level_shift_groups (Some 1), Timezone_anomaly_or_dup_pk] \<and>
   blocking_of (blocking_logic failing_schema failing_duplicates failing_backfill failing_mixup
     failing_level_shift failing_tz) = FAIL"
proof -
  have r: "blocking_logic failing_schema failing_duplicates failing_backfill failing_mixup
     failing_level_shift failing_tz =
     [Missing_schema_columns, Duplicates 2, Partial_backfill_pct (1 / 2),
      Unit_price_mixup_suspected, Level_shift_groups (Some 1), Timezone_anomaly_or_dup_pk]"
    by (simp add: blocking_logic_def failing_schema_def failing_duplicates_def
        failing_backfill_def failing_mixup_def failing_level_shift_def failing_tz_def
        pct_backfilled_def suspected_unit_price_mixup_def groups_with_level_shift_def
        suspicious_def duplicate_block_threshold_def partial_backfill_pct_threshold_def
        level_shift_groups_threshold_def)
  from blocking_logic_policy [of failing_schema failing_duplicates failing_backfill
      failing_mixup failing_level_shift failing_tz] r
  show ?thesis by simp
qed

lemma analyze_file_load_failed:
  "analyze_file P name now (Load_failed e) promos_df calendar_df =
     Inr \<lparr>file_name = name, analyzed_at = now, read_error = Some (''read_error: '' @ e),
          schema = None, schema_versioning = None, duplicates = None, continuity = None,
          level_shift = None, unit_price_mixup = None, partial_backfill = None,
          tz_shift = None, seasonality = None, promo_calendar = None,
          blocking_reasons = [Read_error], blocking = FAIL\<rparr>"
  by (simp add: analyze_file_def)

text \<open>
  C5: for a file whose load fails the Analyzer returns a report that holds the read
  error and none of the diagnostic records (no check has run), with the verdict FAIL and
  the reason list \<^verbatim>\<open>["read_error"]\<close>.
\<close>

theorem analyze_file_read_error:
  "\<exists>rep. analyze_file P name now (Load_failed e) promos_df calendar_df = Inr rep \<and>
     read_error rep = Some (''read_error: '' @ e) \<and>
     schema rep = None \<and> schema_versioning rep = None \<and> duplicates rep = None \<and>
     continuity rep = None \<and> level_shift rep = None \<and> unit_price_mixup rep = None \<and>
     partial_backfill rep = None \<and> tz_shift rep = None \<and> seasonality rep = None \<and>
     promo_calendar rep = None \<and>
     blocking rep = FAIL \<and> blocking_reasons rep = [Read_error]"
  by (simp add: analyze_file_load_failed)

theorem analyze_file_read_error_witness:
  "\<exists>rep. analyze_file plain_pandas ''sales_weekly_1.csv'' ''2024-01-01T00:00:00Z''
       (Load_failed ''No columns to parse from file'') None None = Inr rep \<and>
     read_error rep = Some ''read_error: No columns to parse from file'' \<and>
     unit_price_mixup rep = None \<and>
     blocking rep = FAIL \<and> blocking_reasons rep = [Read_error]"
  using analyze_file_read_error [of plain_pandas "''sales_weekly_1.csv''"
      "''2024-01-01T00:00:00Z''" "''No columns to parse from file''" None None]
  by auto

lemma sort_key_Nil_iff: "sort_key f xs = [] \<longleftrightarrow> xs = []"
  by (metis length_sort list.size(3) length_0_conv)

lemma normalize_three_week_file:
  "normalize_df example_pandas (three_week_file u p) = three_week_table u p"
  by (simp add: normalize_df_def expected_schema_v1_def strip_def is_space_def
      normalize_row_def raw_cell_def typed_names_def sales_file_row_def example_pandas_def Let_def
      normalized_sales_row_def normalized_columns_def three_week_file_def three_week_table_def)

lemmas three_week_simps = three_week_table_def normalized_columns_def expected_schema_v1_def
  normalized_sales_row_def

lemma three_week_schema:
  "missing_columns (check_schema (three_week_table u p) expected_schema_v1) = []"
  by (simp add: check_schema_def three_week_simps Let_def)

lemma three_week_duplicates:
  "duplicate_count (check_duplicates (three_week_table u p) default_pk) = Some 0"
  by (simp add: check_duplicates_def duplicated_def default_pk_def subset_key_def field_def
      ts_cell_def mask_sum_def three_week_simps Let_def ns_per_day_def)

lemma three_week_continuity:
  "check_date_continuity (three_week_table u p) 7 1 = Inr (Cont_ok 1 0 [])"
  by (simp add: check_date_continuity_def groupby_sku_store_def group_rows_def group_key_def
      continuity_step_def unique_def dt_days_def three_week_simps Let_def ns_per_day_def)

lemma three_week_level_shift:
  "detect_level_shift (three_week_table u p) 8 3 = Inr (Shift_ok 0 0 [])"
  by (simp add: detect_level_shift_def level_shift_groups_def sort_values_def groupby_sku_store_def group_rows_def
      group_key_def level_sort_key_def cell_key_def ts_key_def level_shift_step_def
      three_week_simps Let_def ns_per_day_def)

lemma three_week_backfill:
  "detect_partial_backfill (three_week_table u p) 30 = Inr (Backfill_ok 3 0 0 None)"
  by (simp add: detect_partial_backfill_def load_minus_week_days_def tz_aware_def
      assign_delta_days_def backfill_metrics_def
      row_delta_days_def dt_days_def three_week_simps Let_def ns_per_day_def)

lemma three_week_tz:
  "detect_timezone_shift example_pandas (three_week_table u p) = Tz_ok [] 0 False []"
  by (simp add: detect_timezone_shift_def example_pandas_def match_tz_at_def is_digit_def
      unique_def duplicated_def default_pk_def subset_key_def field_def
      ts_cell_def mask_sum_def three_week_simps Let_def ns_per_day_def)


lemma analyze_file_loaded:
  assumes "check_date_continuity (normalize_df P raw) 7 1 = Inr cont"
    and "detect_level_shift (normalize_df P raw) 8 3 = Inr ls"
    and "detect_partial_backfill (normalize_df P raw) 30 = Inr pb"
  shows "analyze_file P name now (Loaded raw) promos_df calendar_df =
     Inr \<lparr>file_name = name, analyzed_at = now, read_error = None,
          schema = Some (check_schema (normalize_df P raw) expected_schema_v1),
          schema_versioning = Some (detect_schema_versioning (normalize_df P raw) expected_schema_v1),
          duplicates = Some (check_duplicates (normalize_df P raw) default_pk),
          continuity = Some cont, level_shift = Some ls,
          unit_price_mixup = Some (detect_unit_price_mixup (normalize_df P raw)),
          partial_backfill = Some pb,
          tz_shift = Some (detect_timezone_shift P (normalize_df P raw)),
          seasonality = Some (detect_seasonality_break (normalize_df P raw)),
          promo_calendar = Some (promo_calendar_diagnostics P (normalize_df P raw) promos_df calendar_df),
          blocking_reasons =
            blocking_logic (check_schema (normalize_df P raw) expected_schema_v1)
              (check_duplicates (normalize_df P raw) default_pk) pb
              (detect_unit_price_mixup (normalize_df P raw)) ls
              (detect_timezone_shift P (normalize_df P raw)),
          blocking =
            blocking_of (blocking_logic (check_schema (normalize_df P raw) expected_schema_v1)
              (check_duplicates (normalize_df P raw) default_pk) pb
              (detect_unit_price_mixup (normalize_df P raw)) ls
              (detect_timezone_shift P (normalize_df P raw)))\<rparr>"
  using assms by (simp add: analyze_file_def Let_def)

lemma analyze_file_type_error:
  assumes "check_date_continuity (normalize_df P raw) 7 1 = Inr cont"
    and "detect_level_shift (normalize_df P raw) 8 3 = Inr ls"
    and "detect_partial_backfill (normalize_df P raw) 30 = Inl e"
  shows "analyze_file P name now (Loaded raw) promos_df calendar_df = Inl e"
  using assms by (simp add: analyze_file_def Let_def)


lemma detect_partial_backfill_raises:
  assumes "''week_start'' \<in> set (columns df)" and "''load_ts_parsed'' \<in> set (columns df)"
    and "tz_aware load_ts_tz (rows df) \<noteq> tz_aware week_start_tz (rows df)"
  shows "detect_partial_backfill df threshold_days = Inl TypeError"
  using assms by (simp add: detect_partial_backfill_def load_minus_week_days_def)



lemma three_week_mixup_medians:
  "price_median_of (three_week_table u p) = Some p"
  "units_median_of (three_week_table u p) = Some u"
  "integer_price_share (three_week_table u p) = (if integer_valued p then 1 else 0)"
  by (simp_all add: price_median_of_def units_median_of_def integer_price_share_def
      series_median_def median_def bool_mean_def three_week_table_def normalized_sales_row_def Let_def)

lemma three_week_reasons:
  "blocking_logic (check_schema (three_week_table u p) expected_schema_v1)
     (check_duplicates (three_week_table u p) default_pk)
     (Backfill_ok 3 0 0 None)
     (detect_unit_price_mixup (three_week_table u p)) (Shift_ok 0 0 [])
     (detect_timezone_shift example_pandas (three_week_table u p)) =
   (if suspected_unit_price_mixup (detect_unit_price_mixup (three_week_table u p)) = Some True
    then [Unit_price_mixup_suspected] else [])"
  by (simp add: blocking_logic_def three_week_schema three_week_duplicates
      three_week_tz pct_backfilled_def groups_with_level_shift_def suspicious_def
      duplicate_block_threshold_def partial_backfill_pct_threshold_def
      level_shift_groups_threshold_def)

lemma three_week_mixup:
  "suspected_unit_price_mixup (detect_unit_price_mixup (three_week_table u p)) =
     Some (p < 3 / 2 \<and> 10 < u \<or> integer_valued p \<and> 5 < p \<and> u < 2)"
proof -
  have c: "''price'' \<in> set (columns (three_week_table u p))"
      "''units'' \<in> set (columns (three_week_table u p))"
    by (simp_all add: three_week_simps)
  show ?thesis
    by (auto simp: detect_unit_price_mixup_ok [OF c] suspected_unit_price_mixup_def
        small_price_heuristic_def integer_price_heuristic_def three_week_mixup_medians
        flt_lt_def flt_gt_def)
qed

lemma analyze_three_week_file:
  "\<exists>rep. analyze_file example_pandas name now (Loaded (three_week_file u p)) promos_df calendar_df
       = Inr rep \<and>
     unit_price_mixup rep = Some (detect_unit_price_mixup (three_week_table u p)) \<and>
     blocking_reasons rep =
       (if suspected_unit_price_mixup (detect_unit_price_mixup (three_week_table u p)) = Some True
        then [Unit_price_mixup_suspected] else []) \<and>
     blocking rep = blocking_of (blocking_reasons rep)"
proof -
  have a: "check_date_continuity (normalize_df example_pandas (three_week_file u p)) 7 1 =
      Inr (Cont_ok 1 0 [])"
    by (simp add: normalize_three_week_file three_week_continuity)
  have b: "detect_level_shift (normalize_df example_pandas (three_week_file u p)) 8 3 =
      Inr (Shift_ok 0 0 [])"
    by (simp add: normalize_three_week_file three_week_level_shift)
  have c: "detect_partial_backfill (normalize_df example_pandas (three_week_file u p)) 30 =
      Inr (Backfill_ok 3 0 0 None)"
    by (simp add: normalize_three_week_file three_week_backfill)
  from analyze_file_loaded [OF a b c, of name now promos_df calendar_df]
  show ?thesis
    by (simp add: normalize_three_week_file three_week_reasons)
qed













text \<open>The loop over the files returns the reports of the files, one each and in order.\<close>

lemma analyze_all_reports:
  "analyze_all P now promos_df calendar_df fs = Inr reports \<longleftrightarrow>
     list_all2 (\<lambda>f r. analyze_file P (fst f) now (snd f) promos_df calendar_df = Inr r) fs reports"
proof (induction fs arbitrary: reports)
  case Nil
  show ?case by auto
next
  case (Cons f fs)
  show ?case
    by (auto simp: list_all2_Cons1 Cons.IH [symmetric] split: sum.splits)
qed

text \<open>
  The Runner exits with code 2 when the data directory does not exist and with code 3
  when no file matches the pattern, in both cases without writing the summary. When
  files match and the analysis of each returns its report, it writes the summary and
  exits with code 1 if a report is blocking and with code 0 otherwise.
\<close>

lemma main_exit_codes:
  "(\<not> data_dir_exists env \<longrightarrow> main P env = Exit 2 None) \<and>
   (data_dir_exists env \<and> matching_files env = [] \<longrightarrow> main P env = Exit 3 None) \<and>
   (data_dir_exists env \<and> matching_files env \<noteq> [] \<and>
    analyze_all P (clock env) (load_optional_csv (promos_file env))
      (load_optional_csv (calendar_file env)) (sort_key fst (matching_files env)) = Inr reports \<longrightarrow>
      main P env =
        Exit (if list_ex (\<lambda>r. blocking r = FAIL) reports then 1 else 0)
          (Some (map summary_of reports)))"
  by (simp add: main_def Let_def sort_key_Nil_iff)

lemma main_exit_codes_examples:
  "main plain_pandas no_dir_env = Exit 2 None \<and>
   main plain_pandas no_files_env = Exit 3 None \<and>
   (\<exists>rows. main plain_pandas unreadable_file_env = Exit 1 (Some rows)) \<and>
   (\<exists>rows. main example_pandas clean_file_env = Exit 0 (Some rows))"
proof -
  have a: "\<not> data_dir_exists no_dir_env"
    by (simp add: no_dir_env_def)
  have b: "data_dir_exists no_files_env \<and> matching_files no_files_env = []"
    by (simp add: no_files_env_def)
  obtain rep where rep: "analyze_file plain_pandas ''sales_weekly_1.csv'' ''2024-01-01T00:00:00Z''
      (Load_failed ''bad file'') None None = Inr rep" and f: "blocking rep = FAIL"
    by (simp add: analyze_file_load_failed)
  have c: "data_dir_exists unreadable_file_env \<and> matching_files unreadable_file_env \<noteq> [] \<and>
    analyze_all plain_pandas (clock unreadable_file_env)
      (load_optional_csv (promos_file unreadable_file_env))
      (load_optional_csv (calendar_file unreadable_file_env))
      (sort_key fst (matching_files unreadable_file_env)) = Inr [rep]"
    using rep by (simp add: unreadable_file_env_def load_optional_csv_def)
  from main_exit_codes [of no_dir_env plain_pandas] a
  have 1: "main plain_pandas no_dir_env = Exit 2 None" by blast
  from main_exit_codes [of no_files_env plain_pandas] b
  have 2: "main plain_pandas no_files_env = Exit 3 None" by blast
  from main_exit_codes [of unreadable_file_env plain_pandas "[rep]"] c f
  have 3: "main plain_pandas unreadable_file_env = Exit 1 (Some (map summary_of [rep]))"
    by simp
  obtain ok where ok: "analyze_file example_pandas ''sales_weekly_1.csv'' ''2024-01-01T00:00:00Z''
      (Loaded (three_week_file 50 (11 / 2))) None None = Inr ok" and p: "blocking ok = PASS"
    using analyze_three_week_file [of "''sales_weekly_1.csv''" "''2024-01-01T00:00:00Z''"
        50 "11 / 2" None None]
    by (auto simp: three_week_mixup integer_valued_def blocking_of_def)
  have d: "data_dir_exists clean_file_env \<and> matching_files clean_file_env \<noteq> [] \<and>
    analyze_all example_pandas (clock clean_file_env)
      (load_optional_csv (promos_file clean_file_env))
      (load_optional_csv (calendar_file clean_file_env))
      (sort_key fst (matching_files clean_file_env)) = Inr [ok]"
    using ok by (simp add: clean_file_env_def load_optional_csv_def)
  from main_exit_codes [of clean_file_env example_pandas "[ok]"] d p
  have 4: "main example_pandas clean_file_env = Exit 0 (Some (map summary_of [ok]))"
    by simp
  from 1 2 3 4 show ?thesis by blast
qed

lemmas utc_load_simps = utc_load_table_def three_week_table_def normalized_columns_def
  expected_schema_v1_def normalized_sales_row_def

lemma normalize_utc_load_file:
  "normalize_df example_pandas utc_load_file = utc_load_table"
  by (simp add: normalize_df_def expected_schema_v1_def strip_def is_space_def
      normalize_row_def raw_cell_def typed_names_def sales_file_row_def example_pandas_def Let_def
      normalized_sales_row_def normalized_columns_def three_week_file_def three_week_table_def
      utc_load_file_def utc_load_table_def)

lemma utc_load_continuity:
  "check_date_continuity utc_load_table 7 1 = Inr (Cont_ok 1 0 [])"
  by (simp add: check_date_continuity_def groupby_sku_store_def group_rows_def group_key_def
      continuity_step_def unique_def dt_days_def utc_load_simps Let_def ns_per_day_def)

lemma utc_load_level_shift:
  "detect_level_shift utc_load_table 8 3 = Inr (Shift_ok 0 0 [])"
  by (simp add: detect_level_shift_def level_shift_groups_def sort_values_def
      groupby_sku_store_def group_rows_def group_key_def level_sort_key_def cell_key_def
      ts_key_def level_shift_step_def utc_load_simps Let_def ns_per_day_def)

lemma utc_load_backfill:
  "detect_partial_backfill utc_load_table 30 = Inl TypeError"
  by (rule detect_partial_backfill_raises) (simp_all add: utc_load_simps tz_aware_def)

lemma utc_load_days:
  "backfill_metrics (assign_delta_days utc_load_table (map row_delta_days (rows utc_load_table))) 30
     = Backfill_ok 3 0 0 None"
  by (simp add: assign_delta_days_def backfill_metrics_def row_delta_days_def dt_days_def
      utc_load_simps Let_def ns_per_day_def)

lemma utc_load_reasons:
  "blocking_logic (check_schema utc_load_table expected_schema_v1)
     (check_duplicates utc_load_table default_pk) (Backfill_ok 3 0 0 None)
     (detect_unit_price_mixup utc_load_table) (Shift_ok 0 0 [])
     (detect_timezone_shift example_pandas utc_load_table) = []"
proof -
  have s: "missing_columns (check_schema utc_load_table expected_schema_v1) = []"
    by (simp add: check_schema_def utc_load_simps Let_def)
  have d: "duplicate_count (check_duplicates utc_load_table default_pk) = Some 0"
    by (simp add: check_duplicates_def duplicated_def default_pk_def subset_key_def field_def
        ts_cell_def mask_sum_def utc_load_simps Let_def ns_per_day_def)
  have m: "suspected_unit_price_mixup (detect_unit_price_mixup utc_load_table) = Some False"
    by (simp add: detect_unit_price_mixup_def suspected_unit_price_mixup_def series_median_def
        median_def flt_lt_def flt_gt_def bool_mean_def integer_valued_def utc_load_simps Let_def)
  have z: "detect_timezone_shift example_pandas utc_load_table = Tz_ok [''Z''] 0 False []"
    by (simp add: detect_timezone_shift_def example_pandas_def match_tz_at_def is_digit_def
        unique_def duplicated_def default_pk_def subset_key_def field_def
        ts_cell_def mask_sum_def utc_load_simps Let_def ns_per_day_def)
  show ?thesis
    by (simp add: blocking_logic_def s d m z pct_backfilled_def groups_with_level_shift_def
        suspicious_def duplicate_block_threshold_def partial_backfill_pct_threshold_def
        level_shift_groups_threshold_def)
qed

text \<open>
  C8: a check that raises ends the run. When the analysis of a matching file raises an
  exception, nothing catches it: the process ends with exit status 1 and writes no
  summary, whatever the verdicts of the files are. The witness is a run over one file
  with all nine columns, no duplicate, weekly cadence, units 50, price 5.50 and the
  load time \<^verbatim>\<open>2023-01-03T00:00:00Z\<close>: no rule of the blocking policy gives it a reason
  (the days between load and week are 1, -6 and -13), but \<^verbatim>\<open>detect_partial_backfill\<close>
  raises TypeError on the timezone-aware load time, and the run ends with status 1 and
  not with 0. The same file with the load time written without the Z exits with 0.
\<close>

theorem uncaught_exception_ends_run:
  "data_dir_exists env \<Longrightarrow>
   analyze_all P (clock env) (load_optional_csv (promos_file env))
     (load_optional_csv (calendar_file env)) (sort_key fst (matching_files env)) = Inl e \<Longrightarrow>
   main P env = Uncaught e \<and> exit_status (main P env) = 1 \<and> \<not> summary_written (main P env)"
  by (cases "sort_key fst (matching_files env)")
    (simp_all add: main_def Let_def exit_status_def summary_written_def)

theorem uncaught_exception_ends_run_witness:
  "normalize_df example_pandas utc_load_file = utc_load_table \<and>
   blocking_logic (check_schema utc_load_table expected_schema_v1)
     (check_duplicates utc_load_table default_pk)
     (backfill_metrics
        (assign_delta_days utc_load_table (map row_delta_days (rows utc_load_table))) 30)
     (detect_unit_price_mixup utc_load_table) (Shift_ok 0 0 [])
     (detect_timezone_shift example_pandas utc_load_table) = [] \<and>
   detect_partial_backfill utc_load_table 30 = Inl TypeError \<and>
   main example_pandas utc_load_env = Uncaught TypeError \<and>
   exit_status (main example_pandas utc_load_env) = 1 \<and>
   \<not> summary_written (main example_pandas utc_load_env) \<and>
   exit_status (main example_pandas clean_file_env) = 0"
proof -
  have a: "analyze_file example_pandas ''sales_weekly_1.csv'' ''2024-01-01T00:00:00Z''
      (Loaded utc_load_file) None None = Inl TypeError"
    by (rule analyze_file_type_error [where cont = "Cont_ok 1 0 []" and ls = "Shift_ok 0 0 []"])
      (simp_all add: normalize_utc_load_file utc_load_continuity utc_load_level_shift
        utc_load_backfill)
  have d: "data_dir_exists utc_load_env"
    by (simp add: utc_load_env_def)
  have e: "analyze_all example_pandas (clock utc_load_env)
      (load_optional_csv (promos_file utc_load_env))
      (load_optional_csv (calendar_file utc_load_env))
      (sort_key fst (matching_files utc_load_env)) = Inl TypeError"
    using a by (simp add: utc_load_env_def load_optional_csv_def)
  have c: "exit_status (main example_pandas clean_file_env) = 0"
    using main_exit_codes_examples by (auto simp: exit_status_def)
  from uncaught_exception_ends_run [OF d e] c show ?thesis
    by (simp add: normalize_utc_load_file utc_load_days utc_load_reasons utc_load_backfill
        exit_status_def summary_written_def)
qed

section \<open>Properties of the store\<close>

lemma grown_refl: "grown s s"
  unfolding grown_def by (rule exI [of _ "[]"], rule exI [of _ "[]"]) simp

lemma grown_trans: "grown s s1 \<Longrightarrow> grown s1 s2 \<Longrightarrow> grown s s2"
  unfolding grown_def by (elim exE, rule_tac x = "fx @ fxa" in exI, rule_tac x = "sx @ sxa" in exI) simp

lemma grown_frames: "s' = s\<lparr>frames := frames s @ fx\<rparr> \<Longrightarrow> grown s s'"
  unfolding grown_def by (rule exI [of _ fx], rule exI [of _ "[]"]) simp

lemma grown_sides: "s' = s\<lparr>side_tables := side_tables s @ sx\<rparr> \<Longrightarrow> grown s s'"
  unfolding grown_def by (rule exI [of _ "[]"], rule exI [of _ sx]) simp

lemma grown_keeps:
  assumes "grown s s'"
  shows "take (length (frames s)) (frames s') = frames s"
    and "take (length (side_tables s)) (side_tables s') = side_tables s"
    and "r < length (frames s) \<Longrightarrow> frames s' ! r = frames s ! r"
    and "r < length (frames s) \<Longrightarrow> r < length (frames s')"
    and "valid_side s side \<Longrightarrow> valid_side s' side"
    and "valid_side s side \<Longrightarrow> side_at s' side = side_at s side"
  using assms
  by (auto simp: grown_def nth_append valid_side_def side_at_def split: option.splits)

lemma detect_partial_backfill_in_pure:
  "fst (detect_partial_backfill_in s df threshold_days) =
     detect_partial_backfill (frames s ! df) threshold_days"
  "grown s (snd (detect_partial_backfill_in s df threshold_days))"
  by (auto simp: detect_partial_backfill_in_def detect_partial_backfill_def df_copy_def
      new_frame_def set_frame_def Let_def grown_refl split: sum.splits intro!: grown_frames)

lemma detect_level_shift_in_pure:
  "fst (detect_level_shift_in s df window z_threshold) =
     detect_level_shift (frames s ! df) window z_threshold"
  "grown s (snd (detect_level_shift_in s df window z_threshold))"
  by (auto simp: detect_level_shift_in_def detect_level_shift_def df_copy_def
      new_frame_def Let_def grown_refl nth_append split: sum.splits intro!: grown_frames)

lemma side_table_hint_in_pure:
  "fst (side_table_hint_in P big s side) = side_table_hint P big (side_at s side)"
  "grown s (snd (side_table_hint_in P big s side))"
  by (auto simp: side_table_hint_in_def side_table_hint_def side_at_def side_copy_def
      set_side_def Let_def grown_refl split: option.splits intro!: grown_sides)


lemma promo_calendar_diagnostics_in_pure:
  assumes "valid_side s calendar"
  shows "fst (promo_calendar_diagnostics_in P s df promos calendar) =
     promo_calendar_diagnostics P (frames s ! df) (side_at s promos) (side_at s calendar)"
    and "grown s (snd (promo_calendar_diagnostics_in P s df promos calendar))"
proof -
  let ?big = "big_change_weeks (weekly_units (rows (frames s ! df)))"
  let ?s1 = "snd (side_table_hint_in P ?big s promos)"
  have g1: "grown s ?s1"
    by (rule side_table_hint_in_pure)
  have g2: "grown ?s1 (snd (side_table_hint_in P ?big ?s1 calendar))"
    by (rule side_table_hint_in_pure)
  have c: "side_at ?s1 calendar = side_at s calendar"
    using g1 assms by (rule grown_keeps)
  have n: "(promos = None \<and> calendar = None) = (side_at s promos = None \<and> side_at s calendar = None)"
    by (simp add: side_at_def)
  show "fst (promo_calendar_diagnostics_in P s df promos calendar) =
     promo_calendar_diagnostics P (frames s ! df) (side_at s promos) (side_at s calendar)"
    unfolding promo_calendar_diagnostics_in_def promo_calendar_diagnostics_def n
    by (simp add: Let_def case_prod_beta side_table_hint_in_pure c)
  show "grown s (snd (promo_calendar_diagnostics_in P s df promos calendar))"
    unfolding promo_calendar_diagnostics_in_def
    using grown_trans [OF g1 g2]
    by (simp add: Let_def case_prod_beta grown_refl)
qed

lemma run_check_pure:
  assumes "valid_side s calendar"
  shows "fst (run_check P c s df promos calendar) =
     check_result P c (frames s ! df) (side_at s promos) (side_at s calendar)"
    and "grown s (snd (run_check P c s df promos calendar))"
  using assms
  by (cases c; simp add: run_check_def check_result_def case_prod_beta grown_refl
      detect_partial_backfill_in_pure detect_level_shift_in_pure
      promo_calendar_diagnostics_in_pure)+

text \<open>
  C9: whichever check runs on the frame at \<open>df\<close> and the side tables at \<open>promos\<close> and
  \<open>calendar\<close>, every frame and every side table that was in the store before is in it
  afterwards, at its place and unchanged (copies are added behind them); the record
  depends on the frame and the side tables alone; and a check \<open>c'\<close> run after a check
  \<open>c\<close> returns what it returns when run first.
\<close>

theorem checks_leave_inputs_unchanged:
  "df < length (frames s) \<Longrightarrow> valid_side s promos \<Longrightarrow> valid_side s calendar \<Longrightarrow>
   take (length (frames s)) (frames (snd (run_check P c s df promos calendar))) = frames s \<and>
   take (length (side_tables s)) (side_tables (snd (run_check P c s df promos calendar))) =
     side_tables s \<and>
   fst (run_check P c s df promos calendar) =
     check_result P c (frames s ! df) (side_at s promos) (side_at s calendar) \<and>
   fst (run_check P c' (snd (run_check P c s df promos calendar)) df promos calendar) =
     fst (run_check P c' s df promos calendar)"
proof -
  assume df: "df < length (frames s)" and vp: "valid_side s promos"
    and vc: "valid_side s calendar"
  let ?s' = "snd (run_check P c s df promos calendar)"
  have g: "grown s ?s'"
    using vc by (rule run_check_pure)
  have vc': "valid_side ?s' calendar"
    using g vc by (rule grown_keeps)
  have same: "frames ?s' ! df = frames s ! df" "side_at ?s' promos = side_at s promos"
      "side_at ?s' calendar = side_at s calendar"
    using grown_keeps [OF g] df vp vc by simp_all
  have "fst (run_check P c' ?s' df promos calendar) =
      check_result P c' (frames s ! df) (side_at s promos) (side_at s calendar)"
    by (simp add: run_check_pure [OF vc'] same)
  then show ?thesis
    using grown_keeps(1,2) [OF g] by (simp add: run_check_pure [OF vc])
qed


theorem checks_leave_inputs_unchanged_witness:
  "take 1 (frames (snd (run_check example_pandas Run_partial_backfill example_store 0 (Some 0) None)))
     = [three_week_table 50 (11 / 2)] \<and>
   length (frames (snd (run_check example_pandas Run_partial_backfill example_store 0 (Some 0) None)))
     = 2 \<and>
   side_tables (snd (run_check example_pandas Run_partial_backfill example_store 0 (Some 0) None))
     = [promos_table] \<and>
   fst (run_check example_pandas Run_partial_backfill example_store 0 (Some 0) None) =
     Inr (Backfill_record (Backfill_ok 3 0 0 None)) \<and>
   fst (run_check example_pandas Run_duplicates
         (snd (run_check example_pandas Run_partial_backfill example_store 0 (Some 0) None))
         0 (Some 0) None) =
     fst (run_check example_pandas Run_duplicates example_store 0 (Some 0) None)"
proof -
  have v: "0 < length (frames example_store)" "valid_side example_store (Some 0)"
      "valid_side example_store None"
    by (simp_all add: example_store_def valid_side_def)
  have l: "length (frames example_store) = 1" "frames example_store ! 0 = three_week_table 50 (11 / 2)"
      "frames example_store = [three_week_table 50 (11 / 2)]"
      "length (side_tables example_store) = 1" "side_tables example_store = [promos_table]"
    by (simp_all add: example_store_def)
  have n: "length (frames (snd (run_check example_pandas Run_partial_backfill example_store 0 (Some 0) None))) = 2"
    by (simp add: run_check_def detect_partial_backfill_in_def df_copy_def new_frame_def
        set_frame_def Let_def example_store_def three_week_simps load_minus_week_days_def
        tz_aware_def)
  have s: "length (side_tables (snd (run_check example_pandas Run_partial_backfill example_store 0 (Some 0) None))) = 1"
    by (simp add: run_check_def detect_partial_backfill_in_def df_copy_def new_frame_def
        set_frame_def Let_def example_store_def three_week_simps load_minus_week_days_def
        tz_aware_def)
  from checks_leave_inputs_unchanged [OF v, of example_pandas Run_partial_backfill Run_duplicates]
  show ?thesis
    using n s by (simp add: l check_result_def three_week_backfill)
qed

end
